theory Spec2Isabelle
  imports Main "HOL-Library.Word" "HOL-Library.Multiset"
begin

section \<open>JavaScript values\<close>

text \<open>
  A JavaScript string is a sequence of UTF-16 code units; \<open>substring\<close>, \<open>length\<close> and
  \<open>===\<close> work on code units. String literals of the source that are plain ASCII are
  written \<open>js ''...''\<close>.
\<close>

type_synonym jschar = "16 word"
type_synonym jsstring = "jschar list"

definition js :: "string \<Rightarrow> jsstring" where
  "js s = map of_char s"

text \<open>
  A JavaScript \<open>Map\<close> keeps its entries in insertion order: \<open>set\<close> on a key that is
  present replaces the value in place, \<open>set\<close> on a new key appends, \<open>delete\<close> removes the
  entry and tells whether there was one, \<open>values()\<close> iterates in insertion order.
\<close>

type_synonym 'v jsmap = "(jsstring \<times> 'v) list"

definition Map_values :: "'v jsmap \<Rightarrow> 'v list" where
  "Map_values m = map snd m"

definition Map_has :: "jsstring \<Rightarrow> 'v jsmap \<Rightarrow> bool" where
  "Map_has k m = (k \<in> set (map fst m))"

definition Map_get :: "jsstring \<Rightarrow> 'v jsmap \<Rightarrow> 'v option" where
  "Map_get k m = map_of m k"

fun Map_set :: "jsstring \<Rightarrow> 'v \<Rightarrow> 'v jsmap \<Rightarrow> 'v jsmap" where
  "Map_set k v [] = [(k, v)]"
| "Map_set k v ((k', v') # m) =
     (if k' = k then (k, v) # m else (k', v') # Map_set k v m)"

definition Map_delete :: "jsstring \<Rightarrow> 'v jsmap \<Rightarrow> bool \<times> 'v jsmap" where
  "Map_delete k m = (Map_has k m, filter (\<lambda>e. fst e \<noteq> k) m)"

text \<open>The keys of a \<open>Map\<close> are pairwise different.\<close>

definition Map_ok :: "'v jsmap \<Rightarrow> bool" where
  "Map_ok m = distinct (map fst m)"

section \<open>The schema\<close>

text \<open>
  The row types of the shared schema (the one with \<open>keyValue\<close> and \<open>isActive\<close>, which is
  the one \<open>server/storage.ts\<close> is written against). A \<open>Date\<close> is its time value in
  milliseconds. \<open>MemStorage\<close> never stores a null \<open>createdAt\<close>, \<open>updatedAt\<close> or
  \<open>isActive\<close>, so these fields carry no null.
\<close>

record User =
  user_id :: jsstring
  username :: jsstring
  password :: jsstring

record InsertUser =
  iu_username :: jsstring
  iu_password :: jsstring

record Conversation =
  conv_id :: jsstring
  title :: jsstring
  conv_userId :: "jsstring option"
  conv_provider :: jsstring
  conv_model :: jsstring
  conv_createdAt :: int
  updatedAt :: int

record InsertConversation =
  ic_title :: jsstring
  ic_userId :: "jsstring option"
  ic_provider :: jsstring
  ic_model :: jsstring

text \<open>
  \<open>Partial<Conversation>\<close>, with the fields the callers of \<open>updateConversation\<close> ever
  pass.
\<close>

record ConversationUpdates =
  upd_title :: "jsstring option"
  upd_provider :: "jsstring option"
  upd_model :: "jsstring option"
  upd_updatedAt :: "int option"

record Usage =
  promptTokens :: int
  completionTokens :: int
  totalTokens :: int

text \<open>
  The \<open>metadata\<close> column is JSON; the server stores \<open>{ images: [...] }\<close> with a user
  turn, \<open>{ usage: ... }\<close> with a reply, or null.
\<close>

datatype Metadata = MetaImages "jsstring list" | MetaUsage "Usage option"

record Message =
  msg_id :: jsstring
  conversationId :: jsstring
  role :: jsstring
  content :: jsstring
  metadata :: "Metadata option"
  createdAt :: int

record InsertMessage =
  im_conversationId :: jsstring
  im_role :: jsstring
  im_content :: jsstring
  im_metadata :: "Metadata option"

record ApiKey =
  key_id :: jsstring
  userId :: jsstring
  provider :: jsstring
  keyValue :: jsstring
  isActive :: bool
  key_createdAt :: int

record InsertApiKey =
  ik_userId :: jsstring
  ik_provider :: jsstring
  ik_keyValue :: jsstring
  ik_isActive :: "bool option"

section \<open>The in-memory store (\<open>MemStorage\<close>)\<close>

text \<open>
  The four private maps of the class. Every method takes the store and returns its
  result together with the store it leaves. \<open>randomUUID()\<close> and \<open>new Date()\<close> are
  inputs of the methods that call them.
\<close>

record MemStorage =
  users :: "User jsmap"
  conversations :: "Conversation jsmap"
  messages :: "Message jsmap"
  apiKeys :: "ApiKey jsmap"

definition emptyStorage :: MemStorage where
  "emptyStorage = \<lparr>users = [], conversations = [], messages = [], apiKeys = []\<rparr>"

subsection \<open>Users\<close>

definition getUser :: "jsstring \<Rightarrow> MemStorage \<Rightarrow> User option" where
  "getUser uid s = Map_get uid (users s)"

definition getUserByUsername :: "jsstring \<Rightarrow> MemStorage \<Rightarrow> User option" where
  "getUserByUsername name s = find (\<lambda>u. username u = name) (Map_values (users s))"

definition createUser :: "jsstring \<Rightarrow> InsertUser \<Rightarrow> MemStorage \<Rightarrow> User \<times> MemStorage" where
  "createUser uuid insertUser s =
     (let user = \<lparr>user_id = uuid, username = iu_username insertUser,
                  password = iu_password insertUser\<rparr>
      in (user, s\<lparr>users := Map_set uuid user (users s)\<rparr>))"

subsection \<open>Conversations\<close>

text \<open>
  \<open>Array.prototype.sort\<close> is stable, and so is \<open>sort_key\<close>; descending order by
  \<open>updatedAt\<close> is ascending order by its negation.
\<close>

definition getConversationsByUserId :: "jsstring \<Rightarrow> MemStorage \<Rightarrow> Conversation list" where
  "getConversationsByUserId uid s =
     sort_key (\<lambda>c. - updatedAt c)
       (filter (\<lambda>conv. conv_userId conv = Some uid) (Map_values (conversations s)))"

definition getConversation :: "jsstring \<Rightarrow> MemStorage \<Rightarrow> Conversation option" where
  "getConversation cid s = Map_get cid (conversations s)"

text \<open>\<open>conversation.userId || null\<close>: an absent, null or empty user id becomes null.\<close>

definition createConversation ::
  "jsstring \<Rightarrow> int \<Rightarrow> InsertConversation \<Rightarrow> MemStorage \<Rightarrow> Conversation \<times> MemStorage" where
  "createConversation uuid now conversation s =
     (let newConv = \<lparr>conv_id = uuid, title = ic_title conversation,
                     conv_userId = (case ic_userId conversation of
                                      None \<Rightarrow> None
                                    | Some u \<Rightarrow> if u = [] then None else Some u),
                     conv_provider = ic_provider conversation,
                     conv_model = ic_model conversation,
                     conv_createdAt = now, updatedAt = now\<rparr>
      in (newConv, s\<lparr>conversations := Map_set uuid newConv (conversations s)\<rparr>))"

definition applyUpdates :: "Conversation \<Rightarrow> ConversationUpdates \<Rightarrow> Conversation" where
  "applyUpdates existing updates =
     existing\<lparr>title := (case upd_title updates of None \<Rightarrow> title existing | Some t \<Rightarrow> t),
              conv_provider := (case upd_provider updates of
                                  None \<Rightarrow> conv_provider existing | Some p \<Rightarrow> p),
              conv_model := (case upd_model updates of
                               None \<Rightarrow> conv_model existing | Some m \<Rightarrow> m),
              updatedAt := (case upd_updatedAt updates of
                              None \<Rightarrow> updatedAt existing | Some t \<Rightarrow> t)\<rparr>"

definition updateConversation ::
  "jsstring \<Rightarrow> ConversationUpdates \<Rightarrow> int \<Rightarrow> MemStorage \<Rightarrow> Conversation option \<times> MemStorage" where
  "updateConversation cid updates now s =
     (case Map_get cid (conversations s) of
        None \<Rightarrow> (None, s)
      | Some existing \<Rightarrow>
          (let updated = (applyUpdates existing updates)\<lparr>updatedAt := now\<rparr>
           in (Some updated, s\<lparr>conversations := Map_set cid updated (conversations s)\<rparr>)))"

subsection \<open>Messages\<close>

definition getMessagesByConversationId :: "jsstring \<Rightarrow> MemStorage \<Rightarrow> Message list" where
  "getMessagesByConversationId cid s =
     sort_key createdAt
       (filter (\<lambda>msg. conversationId msg = cid) (Map_values (messages s)))"

text \<open>\<open>message.metadata || null\<close>: an object is truthy, so the metadata is kept.\<close>

definition createMessage ::
  "jsstring \<Rightarrow> int \<Rightarrow> InsertMessage \<Rightarrow> MemStorage \<Rightarrow> Message \<times> MemStorage" where
  "createMessage uuid now message s =
     (let newMessage = \<lparr>msg_id = uuid, conversationId = im_conversationId message,
                        role = im_role message, content = im_content message,
                        metadata = im_metadata message, createdAt = now\<rparr>
      in (newMessage, s\<lparr>messages := Map_set uuid newMessage (messages s)\<rparr>))"

definition deleteMessagesByConversationId :: "jsstring \<Rightarrow> MemStorage \<Rightarrow> bool \<times> MemStorage" where
  "deleteMessagesByConversationId cid s =
     (let messagesToDelete = filter (\<lambda>msg. conversationId msg = cid) (Map_values (messages s))
      in (True, s\<lparr>messages := foldl (\<lambda>m msg. snd (Map_delete (msg_id msg) m))
                                     (messages s) messagesToDelete\<rparr>))"

definition deleteConversation :: "jsstring \<Rightarrow> MemStorage \<Rightarrow> bool \<times> MemStorage" where
  "deleteConversation cid s =
     (let s1 = snd (deleteMessagesByConversationId cid s);
          (existed, convs) = Map_delete cid (conversations s1)
      in (existed, s1\<lparr>conversations := convs\<rparr>))"

subsection \<open>API keys\<close>

definition getApiKeysByUserId :: "jsstring \<Rightarrow> MemStorage \<Rightarrow> ApiKey list" where
  "getApiKeysByUserId uid s = filter (\<lambda>key. userId key = uid) (Map_values (apiKeys s))"

definition getApiKey :: "jsstring \<Rightarrow> jsstring \<Rightarrow> MemStorage \<Rightarrow> ApiKey option" where
  "getApiKey uid prov s =
     find (\<lambda>key. userId key = uid \<and> provider key = prov \<and> isActive key)
       (Map_values (apiKeys s))"

text \<open>
  The \<open>forEach\<close> of \<open>setApiKey\<close> writes \<open>isActive = false\<close> into each key object of the
  pair and stores the object again under its own id; the new key is stored last. The
  objects are the ones the map holds, under the id they carry (see \<open>store_ok\<close>).
\<close>

definition deactivate :: "ApiKey jsmap \<Rightarrow> ApiKey \<Rightarrow> ApiKey jsmap" where
  "deactivate m key = Map_set (key_id key) (key\<lparr>isActive := False\<rparr>) m"

definition setApiKey ::
  "jsstring \<Rightarrow> int \<Rightarrow> InsertApiKey \<Rightarrow> MemStorage \<Rightarrow> ApiKey \<times> MemStorage" where
  "setApiKey uuid now apiKey s =
     (let existing = filter (\<lambda>key. userId key = ik_userId apiKey \<and>
                                    provider key = ik_provider apiKey)
                        (Map_values (apiKeys s));
          deactivated = foldl deactivate (apiKeys s) existing;
          newKey = \<lparr>key_id = uuid, userId = ik_userId apiKey, provider = ik_provider apiKey,
                    keyValue = ik_keyValue apiKey, isActive = True, key_createdAt = now\<rparr>
      in (newKey, s\<lparr>apiKeys := Map_set uuid newKey deactivated\<rparr>))"

definition deleteApiKey :: "jsstring \<Rightarrow> jsstring \<Rightarrow> MemStorage \<Rightarrow> bool \<times> MemStorage" where
  "deleteApiKey uid prov s =
     (case getApiKey uid prov s of
        Some key \<Rightarrow> (let (existed, keys) = Map_delete (key_id key) (apiKeys s)
                     in (existed, s\<lparr>apiKeys := keys\<rparr>))
      | None \<Rightarrow> (False, s))"

text \<open>
  Every method stores an object under the id the object carries, and a \<open>Map\<close> has each
  key once. This is what a store reached from the empty one looks like.
\<close>

definition keyed_by :: "('v \<Rightarrow> jsstring) \<Rightarrow> 'v jsmap \<Rightarrow> bool" where
  "keyed_by ident m = (Map_ok m \<and> list_all (\<lambda>e. ident (snd e) = fst e) m)"

definition store_ok :: "MemStorage \<Rightarrow> bool" where
  "store_ok s = (keyed_by user_id (users s) \<and> keyed_by conv_id (conversations s) \<and>
                 keyed_by msg_id (messages s) \<and> keyed_by key_id (apiKeys s))"


section \<open>The provider service (\<open>AIProviderService\<close>)\<close>

text \<open>
  \<open>AIProvider\<close> is the enumeration of the twelve supported provider names. At run time
  a provider is a string; \<open>AIProvider.parse\<close> accepts exactly the twelve names.
\<close>

datatype AIProviderType =
  Openai | Anthropic | Google | Huggingface | Cerebras | Sambanova
  | Mistral | Cohere | Xai | Perplexity | Together | Fireworks

fun providerName :: "AIProviderType \<Rightarrow> jsstring" where
  "providerName Openai = js ''openai''"
| "providerName Anthropic = js ''anthropic''"
| "providerName Google = js ''google''"
| "providerName Huggingface = js ''huggingface''"
| "providerName Cerebras = js ''cerebras''"
| "providerName Sambanova = js ''sambanova''"
| "providerName Mistral = js ''mistral''"
| "providerName Cohere = js ''cohere''"
| "providerName Xai = js ''xai''"
| "providerName Perplexity = js ''perplexity''"
| "providerName Together = js ''together''"
| "providerName Fireworks = js ''fireworks''"

definition allProviders :: "AIProviderType list" where
  "allProviders = [Openai, Anthropic, Google, Huggingface, Cerebras, Sambanova,
                   Mistral, Cohere, Xai, Perplexity, Together, Fireworks]"

definition AIProvider_parse :: "jsstring \<Rightarrow> AIProviderType option" where
  "AIProvider_parse name = find (\<lambda>p. providerName p = name) allProviders"

fun DEFAULT_MODELS :: "AIProviderType \<Rightarrow> jsstring" where
  "DEFAULT_MODELS Openai = js ''gpt-4o''"
| "DEFAULT_MODELS Anthropic = js ''claude-sonnet-4-20250514''"
| "DEFAULT_MODELS Google = js ''gemini-2.5-flash''"
| "DEFAULT_MODELS Huggingface = js ''meta-llama/Llama-3.2-11B-Vision-Instruct''"
| "DEFAULT_MODELS Cerebras = js ''llama3.1-8b''"
| "DEFAULT_MODELS Sambanova = js ''Meta-Llama-3.1-8B-Instruct''"
| "DEFAULT_MODELS Mistral = js ''mistral-large-latest''"
| "DEFAULT_MODELS Cohere = js ''command-r-plus''"
| "DEFAULT_MODELS Xai = js ''grok-beta''"
| "DEFAULT_MODELS Perplexity = js ''llama-3.1-sonar-large-128k-online''"
| "DEFAULT_MODELS Together = js ''meta-llama/Meta-Llama-3.1-8B-Instruct-Turbo''"
| "DEFAULT_MODELS Fireworks = js ''accounts/fireworks/models/llama-v3p1-8b-instruct''"

datatype Error =
  TypeError
  | ZodError
  | UnsupportedProvider jsstring
  | UpstreamError jsstring

text \<open>
  One turn of the \<open>messages\<close> argument of \<open>sendMessage\<close> (called \<open>history\<close> below), and the
  normalized reply.
\<close>

record ChatTurn =
  turn_role :: jsstring
  turn_content :: jsstring
  turn_images :: "jsstring list option"

record AIResponse =
  ai_content :: jsstring
  ai_model :: jsstring
  ai_provider :: jsstring
  ai_usage :: "Usage option"

subsection \<open>What goes to the provider SDKs and what comes back\<close>

datatype Part =
  TextPart jsstring
  | ImageUrlPart jsstring
  | ImageSourcePart jsstring jsstring jsstring
  | InlineDataPart jsstring jsstring

datatype Content = Text jsstring | Parts "Part list"

record ChatCompletionRequest =
  cc_apiKey :: jsstring
  cc_baseURL :: "jsstring option"
  cc_model :: jsstring
  cc_messages :: "(jsstring \<times> Content) list"
  cc_max_tokens :: nat

record AnthropicRequest =
  an_apiKey :: jsstring
  an_model :: jsstring
  an_max_tokens :: nat
  an_messages :: "(jsstring \<times> Content) list"

record GenerateContentRequest =
  gc_apiKey :: jsstring
  gc_model :: jsstring
  gc_contents :: "(jsstring \<times> Part list) list"

text \<open>The temperature \<open>0.7\<close> is kept as the fraction 7/10.\<close>

record TextGenerationRequest =
  tg_apiKey :: jsstring
  tg_model :: jsstring
  tg_inputs :: jsstring
  tg_max_new_tokens :: nat
  tg_temperature :: "nat \<times> nat"

record MistralRequest =
  mi_apiKey :: jsstring
  mi_model :: jsstring
  mi_messages :: "(jsstring \<times> jsstring) list"

record CohereRequest =
  co_token :: jsstring
  co_model :: jsstring
  co_message :: jsstring
  co_chatHistory :: "(jsstring \<times> jsstring) list option"

datatype Outbound =
  ChatCompletionsCreate ChatCompletionRequest
  | MessagesCreate AnthropicRequest
  | GenerateContent GenerateContentRequest
  | TextGeneration TextGenerationRequest
  | ChatComplete MistralRequest
  | CohereChat CohereRequest

record RawUsage =
  prompt_tokens :: int
  completion_tokens :: int
  total_tokens :: int

text \<open>A chat completion: the \<open>message.content\<close> of each choice (nullable), and the usage.\<close>

record ChatCompletion =
  choices :: "jsstring option list"
  cc_usage :: "RawUsage option"

datatype ContentBlock = TextBlock jsstring | OtherBlock

record AnthropicUsage =
  input_tokens :: int
  output_tokens :: int

record AnthropicMessage =
  an_content :: "ContentBlock list"
  an_usage :: "AnthropicUsage option"

record MistralCompletion =
  mi_choices :: "jsstring option list option"
  mi_usage :: "RawUsage option"

text \<open>
  The SDK clients are the outside world: each call either throws or resolves to a
  response. The service makes one call per \<open>sendMessage\<close>; a sender returns the calls it
  made together with its outcome.
\<close>

record SDK =
  chat_completions_create :: "ChatCompletionRequest \<Rightarrow> Error + ChatCompletion"
  messages_create :: "AnthropicRequest \<Rightarrow> Error + AnthropicMessage"
  generateContent :: "GenerateContentRequest \<Rightarrow> Error + jsstring option"
  textGeneration :: "TextGenerationRequest \<Rightarrow> Error + jsstring"
  chat_complete :: "MistralRequest \<Rightarrow> Error + MistralCompletion"
  cohere_chat :: "CohereRequest \<Rightarrow> Error + jsstring option"

type_synonym Sent = "Outbound list \<times> (Error + AIResponse)"

text \<open>\<open>x || ""\<close> on a nullable string.\<close>

definition orEmpty :: "jsstring option \<Rightarrow> jsstring" where
  "orEmpty x = (case x of None \<Rightarrow> [] | Some t \<Rightarrow> t)"

definition usageOf :: "RawUsage option \<Rightarrow> Usage option" where
  "usageOf u = map_option (\<lambda>r. \<lparr>promptTokens = prompt_tokens r,
                                  completionTokens = completion_tokens r,
                                  totalTokens = total_tokens r\<rparr>) u"

text \<open>
  The reply built from a chat completion; \<open>response.choices[0].message\<close> on an empty
  \<open>choices\<close> is a \<open>TypeError\<close>.
\<close>

definition chatCompletionReply ::
  "Error + ChatCompletion \<Rightarrow> jsstring \<Rightarrow> jsstring \<Rightarrow> Error + AIResponse" where
  "chatCompletionReply outcome model prov =
     (case outcome of
        Inl e \<Rightarrow> Inl e
      | Inr response \<Rightarrow>
          (case choices response of
             [] \<Rightarrow> Inl TypeError
           | c # _ \<Rightarrow> Inr \<lparr>ai_content = orEmpty c, ai_model = model, ai_provider = prov,
                            ai_usage = usageOf (cc_usage response)\<rparr>))"

definition plainMessages :: "ChatTurn list \<Rightarrow> (jsstring \<times> Content) list" where
  "plainMessages history = map (\<lambda>msg. (turn_role msg, Text (turn_content msg))) history"

definition hasImages :: "ChatTurn \<Rightarrow> bool" where
  "hasImages msg = (case turn_images msg of None \<Rightarrow> False | Some imgs \<Rightarrow> 0 < length imgs)"

definition imagesOf :: "ChatTurn \<Rightarrow> jsstring list" where
  "imagesOf msg = (case turn_images msg of None \<Rightarrow> [] | Some imgs \<Rightarrow> imgs)"

definition sendOpenAIMessage :: "SDK \<Rightarrow> jsstring \<Rightarrow> ChatTurn list \<Rightarrow> jsstring \<Rightarrow> Sent" where
  "sendOpenAIMessage sdk apiKey history model =
     (let openaiMessages = map (\<lambda>msg.
            if hasImages msg
            then (turn_role msg,
                  Parts (TextPart (turn_content msg) #
                         map (\<lambda>img. ImageUrlPart (js ''data:image/jpeg;base64,'' @ img))
                           (imagesOf msg)))
            else (turn_role msg, Text (turn_content msg))) history;
          request = \<lparr>cc_apiKey = apiKey, cc_baseURL = None, cc_model = model,
                     cc_messages = openaiMessages, cc_max_tokens = 4000\<rparr>
      in ([ChatCompletionsCreate request],
          chatCompletionReply (chat_completions_create sdk request) model (js ''openai'')))"

definition sendAnthropicMessage :: "SDK \<Rightarrow> jsstring \<Rightarrow> ChatTurn list \<Rightarrow> jsstring \<Rightarrow> Sent" where
  "sendAnthropicMessage sdk apiKey history model =
     (let anthropicMessages = map (\<lambda>msg.
            if hasImages msg
            then (turn_role msg,
                  Parts (TextPart (turn_content msg) #
                         map (\<lambda>img. ImageSourcePart (js ''base64'') (js ''image/jpeg'') img)
                           (imagesOf msg)))
            else (turn_role msg, Text (turn_content msg))) history;
          request = \<lparr>an_apiKey = apiKey, an_model = model, an_max_tokens = 4000,
                     an_messages = anthropicMessages\<rparr>
      in ([MessagesCreate request],
          case messages_create sdk request of
            Inl e \<Rightarrow> Inl e
          | Inr response \<Rightarrow>
              Inr \<lparr>ai_content = concat (map (\<lambda>c. case c of TextBlock t \<Rightarrow> t | OtherBlock \<Rightarrow> [])
                                          (an_content response)),
                   ai_model = model, ai_provider = js ''anthropic'',
                   ai_usage = map_option (\<lambda>u. \<lparr>promptTokens = input_tokens u,
                                                 completionTokens = output_tokens u,
                                                 totalTokens = input_tokens u + output_tokens u\<rparr>)
                                (an_usage response)\<rparr>))"

definition sendGoogleMessage :: "SDK \<Rightarrow> jsstring \<Rightarrow> ChatTurn list \<Rightarrow> jsstring \<Rightarrow> Sent" where
  "sendGoogleMessage sdk apiKey history model =
     (let contents = map (\<lambda>msg.
            (if turn_role msg = js ''assistant'' then js ''model'' else js ''user'',
             TextPart (turn_content msg) #
             (if hasImages msg
              then map (\<lambda>img. InlineDataPart img (js ''image/jpeg'')) (imagesOf msg)
              else []))) history;
          request = \<lparr>gc_apiKey = apiKey, gc_model = model, gc_contents = contents\<rparr>
      in ([GenerateContent request],
          case generateContent sdk request of
            Inl e \<Rightarrow> Inl e
          | Inr text \<Rightarrow> Inr \<lparr>ai_content = orEmpty text, ai_model = model,
                              ai_provider = js ''google'', ai_usage = None\<rparr>))"

text \<open>\<open>Array.prototype.join\<close>, \<open>String.prototype.replace\<close> with a string pattern (the
  first occurrence only) and an empty replacement, and \<open>String.prototype.trim\<close>.\<close>

fun join :: "jsstring \<Rightarrow> jsstring list \<Rightarrow> jsstring" where
  "join sep [] = []"
| "join sep [x] = x"
| "join sep (x # y # ys) = x @ sep @ join sep (y # ys)"

fun removeFirst :: "jsstring \<Rightarrow> jsstring \<Rightarrow> jsstring" where
  "removeFirst pat [] = []"
| "removeFirst pat (c # cs) =
     (if take (length pat) (c # cs) = pat then drop (length pat) (c # cs)
      else c # removeFirst pat cs)"

definition isWhiteSpace :: "jschar \<Rightarrow> bool" where
  "isWhiteSpace c =
     ((0x09 \<le> c \<and> c \<le> 0x0D) \<or> c = 0x20 \<or> c = 0xA0 \<or> c = 0x1680 \<or>
      (0x2000 \<le> c \<and> c \<le> 0x200A) \<or> c = 0x2028 \<or> c = 0x2029 \<or> c = 0x202F \<or>
      c = 0x205F \<or> c = 0x3000 \<or> c = 0xFEFF)"

definition trim :: "jsstring \<Rightarrow> jsstring" where
  "trim t = rev (dropWhile isWhiteSpace (rev (dropWhile isWhiteSpace t)))"

definition sendHuggingFaceMessage :: "SDK \<Rightarrow> jsstring \<Rightarrow> ChatTurn list \<Rightarrow> jsstring \<Rightarrow> Sent" where
  "sendHuggingFaceMessage sdk apiKey history model =
     (let conversationText =
            join (js [CHR 0x0A]) (map (\<lambda>msg.
              if turn_role msg = js ''user'' then js ''Human: '' @ turn_content msg
              else js ''Assistant: '' @ turn_content msg) history)
            @ js [CHR 0x0A] @ js ''Assistant:'';
          request = \<lparr>tg_apiKey = apiKey, tg_model = model, tg_inputs = conversationText,
                     tg_max_new_tokens = 1000, tg_temperature = (7, 10)\<rparr>
      in ([TextGeneration request],
          case textGeneration sdk request of
            Inl e \<Rightarrow> Inl e
          | Inr generated_text \<Rightarrow>
              Inr \<lparr>ai_content = trim (removeFirst conversationText generated_text),
                   ai_model = model, ai_provider = js ''huggingface'', ai_usage = None\<rparr>))"

text \<open>
  Cerebras, SambaNova, xAI, Perplexity, Together and Fireworks go through the OpenAI
  client with their own base URL; the six methods differ in the base URL and the provider
  name only.
\<close>

definition sendCompatibleMessage ::
  "jsstring \<Rightarrow> jsstring \<Rightarrow> SDK \<Rightarrow> jsstring \<Rightarrow> ChatTurn list \<Rightarrow> jsstring \<Rightarrow> Sent" where
  "sendCompatibleMessage baseURL prov sdk apiKey history model =
     (let request = \<lparr>cc_apiKey = apiKey, cc_baseURL = Some baseURL, cc_model = model,
                     cc_messages = plainMessages history, cc_max_tokens = 1000\<rparr>
      in ([ChatCompletionsCreate request],
          chatCompletionReply (chat_completions_create sdk request) model prov))"

definition sendCerebrasMessage :: "SDK \<Rightarrow> jsstring \<Rightarrow> ChatTurn list \<Rightarrow> jsstring \<Rightarrow> Sent" where
  "sendCerebrasMessage =
     sendCompatibleMessage (js ''https://api.cerebras.ai/v1'') (js ''cerebras'')"

definition sendSambanovaMessage :: "SDK \<Rightarrow> jsstring \<Rightarrow> ChatTurn list \<Rightarrow> jsstring \<Rightarrow> Sent" where
  "sendSambanovaMessage =
     sendCompatibleMessage (js ''https://api.sambanova.ai/v1'') (js ''sambanova'')"

definition sendXAIMessage :: "SDK \<Rightarrow> jsstring \<Rightarrow> ChatTurn list \<Rightarrow> jsstring \<Rightarrow> Sent" where
  "sendXAIMessage = sendCompatibleMessage (js ''https://api.x.ai/v1'') (js ''xai'')"

definition sendPerplexityMessage :: "SDK \<Rightarrow> jsstring \<Rightarrow> ChatTurn list \<Rightarrow> jsstring \<Rightarrow> Sent" where
  "sendPerplexityMessage =
     sendCompatibleMessage (js ''https://api.perplexity.ai'') (js ''perplexity'')"

definition sendTogetherMessage :: "SDK \<Rightarrow> jsstring \<Rightarrow> ChatTurn list \<Rightarrow> jsstring \<Rightarrow> Sent" where
  "sendTogetherMessage =
     sendCompatibleMessage (js ''https://api.together.xyz/v1'') (js ''together'')"

definition sendFireworksMessage :: "SDK \<Rightarrow> jsstring \<Rightarrow> ChatTurn list \<Rightarrow> jsstring \<Rightarrow> Sent" where
  "sendFireworksMessage =
     sendCompatibleMessage (js ''https://api.fireworks.ai/inference/v1'') (js ''fireworks'')"

definition sendMistralMessage :: "SDK \<Rightarrow> jsstring \<Rightarrow> ChatTurn list \<Rightarrow> jsstring \<Rightarrow> Sent" where
  "sendMistralMessage sdk apiKey history model =
     (let mistralMessages = map (\<lambda>msg. (turn_role msg, turn_content msg)) history;
          request = \<lparr>mi_apiKey = apiKey, mi_model = model, mi_messages = mistralMessages\<rparr>
      in ([ChatComplete request],
          case chat_complete sdk request of
            Inl e \<Rightarrow> Inl e
          | Inr response \<Rightarrow>
              Inr \<lparr>ai_content = (case mi_choices response of
                                   None \<Rightarrow> []
                                 | Some [] \<Rightarrow> []
                                 | Some (c # _) \<Rightarrow> orEmpty c),
                   ai_model = model, ai_provider = js ''mistral'',
                   ai_usage = usageOf (mi_usage response)\<rparr>))"

text \<open>
  Cohere takes the last turn apart from the earlier ones: on an empty history
  \<open>messages[messages.length - 1]\<close> is undefined and reading its \<open>content\<close> is a
  \<open>TypeError\<close>, thrown before anything is sent.
\<close>

definition sendCohereMessage :: "SDK \<Rightarrow> jsstring \<Rightarrow> ChatTurn list \<Rightarrow> jsstring \<Rightarrow> Sent" where
  "sendCohereMessage sdk apiKey history model =
     (if history = [] then ([], Inl TypeError)
      else
        (let lastMessage = last history;
             chatHistory = map (\<lambda>msg.
               (if turn_role msg = js ''user'' then js ''USER'' else js ''CHATBOT'',
                turn_content msg)) (butlast history);
             request = \<lparr>co_token = apiKey, co_model = model,
                        co_message = turn_content lastMessage,
                        co_chatHistory = (if 0 < length chatHistory then Some chatHistory
                                          else None)\<rparr>
         in ([CohereChat request],
             case cohere_chat sdk request of
               Inl e \<Rightarrow> Inl e
             | Inr text \<Rightarrow> Inr \<lparr>ai_content = orEmpty text, ai_model = model,
                                 ai_provider = js ''cohere'', ai_usage = None\<rparr>)))"

text \<open>
  \<open>model || DEFAULT_MODELS[provider]\<close>: an absent and an empty model both fall back to the
  default. The \<open>switch\<close> compares the provider string with the twelve names; any other
  string reaches \<open>default\<close>, which throws.
\<close>

definition selectModel :: "AIProviderType \<Rightarrow> jsstring option \<Rightarrow> jsstring" where
  "selectModel p model =
     (case model of
        None \<Rightarrow> DEFAULT_MODELS p
      | Some m \<Rightarrow> if m = [] then DEFAULT_MODELS p else m)"

definition sendMessage ::
  "SDK \<Rightarrow> jsstring \<Rightarrow> jsstring \<Rightarrow> ChatTurn list \<Rightarrow> jsstring option \<Rightarrow> Sent" where
  "sendMessage sdk prov apiKey history model =
     (case AIProvider_parse prov of
        None \<Rightarrow> ([], Inl (UnsupportedProvider prov))
      | Some p \<Rightarrow>
          (let selectedModel = selectModel p model
           in case p of
                Openai \<Rightarrow> sendOpenAIMessage sdk apiKey history selectedModel
              | Anthropic \<Rightarrow> sendAnthropicMessage sdk apiKey history selectedModel
              | Google \<Rightarrow> sendGoogleMessage sdk apiKey history selectedModel
              | Huggingface \<Rightarrow> sendHuggingFaceMessage sdk apiKey history selectedModel
              | Cerebras \<Rightarrow> sendCerebrasMessage sdk apiKey history selectedModel
              | Sambanova \<Rightarrow> sendSambanovaMessage sdk apiKey history selectedModel
              | Mistral \<Rightarrow> sendMistralMessage sdk apiKey history selectedModel
              | Cohere \<Rightarrow> sendCohereMessage sdk apiKey history selectedModel
              | Xai \<Rightarrow> sendXAIMessage sdk apiKey history selectedModel
              | Perplexity \<Rightarrow> sendPerplexityMessage sdk apiKey history selectedModel
              | Together \<Rightarrow> sendTogetherMessage sdk apiKey history selectedModel
              | Fireworks \<Rightarrow> sendFireworksMessage sdk apiKey history selectedModel))"


section \<open>The REST routes\<close>

subsection \<open>Request bodies and their schemas\<close>

text \<open>
  A request body is the JSON value \<open>express.json()\<close> parsed (numbers are kept as
  integers; no schema below accepts a number). An object built by \<open>JSON.parse\<close> keeps the
  last of several equal keys.
\<close>

datatype json =
  JNull | JBool bool | JNum int | JStr jsstring | JArr "json list"
  | JObj "(jsstring \<times> json) list"

fun field :: "string \<Rightarrow> json \<Rightarrow> json option" where
  "field k (JObj fs) = map_of (rev fs) (js k)"
| "field k _ = None"

text \<open>
  \<open>insertConversationSchema\<close> and \<open>insertApiKeySchema\<close> are derived from the table
  columns by \<open>createInsertSchema\<close>: a \<open>text(...).notNull()\<close> column is a required string, a
  nullable column with a default is optional, unknown keys are dropped. The \<open>provider\<close>
  column is \<open>text("provider").notNull()\<close> in both tables, so any string passes. The routes
  overwrite \<open>userId\<close> with the mock user before parsing.
\<close>

definition mockUserId :: jsstring where
  "mockUserId = js ''user-1''"

definition insertConversationSchema_parse :: "jsstring \<Rightarrow> json \<Rightarrow> Error + InsertConversation" where
  "insertConversationSchema_parse uid body =
     (case (field ''title'' body, field ''provider'' body, field ''model'' body) of
        (Some (JStr t), Some (JStr p), Some (JStr m)) \<Rightarrow>
          Inr \<lparr>ic_title = t, ic_userId = Some uid, ic_provider = p, ic_model = m\<rparr>
      | _ \<Rightarrow> Inl ZodError)"

definition insertApiKeySchema_parse :: "jsstring \<Rightarrow> json \<Rightarrow> Error + InsertApiKey" where
  "insertApiKeySchema_parse uid body =
     (case (field ''provider'' body, field ''keyValue'' body) of
        (Some (JStr p), Some (JStr k)) \<Rightarrow>
          (case field ''isActive'' body of
             None \<Rightarrow> Inr \<lparr>ik_userId = uid, ik_provider = p, ik_keyValue = k, ik_isActive = None\<rparr>
           | Some JNull \<Rightarrow>
               Inr \<lparr>ik_userId = uid, ik_provider = p, ik_keyValue = k, ik_isActive = None\<rparr>
           | Some (JBool b) \<Rightarrow>
               Inr \<lparr>ik_userId = uid, ik_provider = p, ik_keyValue = k, ik_isActive = Some b\<rparr>
           | Some _ \<Rightarrow> Inl ZodError)
      | _ \<Rightarrow> Inl ZodError)"

record ChatMessage =
  cm_content :: jsstring
  cm_images :: "jsstring list option"

fun stringArray :: "json list \<Rightarrow> jsstring list option" where
  "stringArray [] = Some []"
| "stringArray (JStr x # xs) = map_option ((#) x) (stringArray xs)"
| "stringArray (_ # xs) = None"

definition validAttachment :: "json \<Rightarrow> bool" where
  "validAttachment a =
     (case (field ''type'' a, field ''name'' a, field ''content'' a) of
        (Some (JStr t), Some (JStr n), Some (JStr c)) \<Rightarrow>
          t = js ''pdf'' \<or> t = js ''doc'' \<or> t = js ''txt''
      | _ \<Rightarrow> False)"

definition validAttachments :: "json option \<Rightarrow> bool" where
  "validAttachments a =
     (case a of None \<Rightarrow> True | Some (JArr xs) \<Rightarrow> list_all validAttachment xs | Some _ \<Rightarrow> False)"

definition ChatMessageSchema_parse :: "json \<Rightarrow> Error + ChatMessage" where
  "ChatMessageSchema_parse body =
     (case field ''content'' body of
        Some (JStr c) \<Rightarrow>
          (if \<not> validAttachments (field ''attachments'' body) then Inl ZodError
           else case field ''images'' body of
                  None \<Rightarrow> Inr \<lparr>cm_content = c, cm_images = None\<rparr>
                | Some (JArr xs) \<Rightarrow>
                    (case stringArray xs of
                       None \<Rightarrow> Inl ZodError
                     | Some imgs \<Rightarrow> Inr \<lparr>cm_content = c, cm_images = Some imgs\<rparr>)
                | Some _ \<Rightarrow> Inl ZodError)
      | _ \<Rightarrow> Inl ZodError)"

subsection \<open>The handlers\<close>

text \<open>
  A handler answers with a JSON payload (status 200) or with a status and an
  \<open>{ error: ... }\<close> message, and leaves a store.
\<close>

datatype 'a HttpResponse = Ok 'a | Fail nat jsstring

definition postConversation ::
  "jsstring \<Rightarrow> int \<Rightarrow> json \<Rightarrow> MemStorage \<Rightarrow> Conversation HttpResponse \<times> MemStorage" where
  "postConversation uuid now body s =
     (case insertConversationSchema_parse mockUserId body of
        Inl e \<Rightarrow> (Fail 400 (js ''Invalid conversation data''), s)
      | Inr validatedData \<Rightarrow>
          (let (conversation, s') = createConversation uuid now validatedData s
           in (Ok conversation, s')))"

text \<open>
  The send-message handler calls \<open>randomUUID()\<close> and \<open>new Date()\<close> for the user message
  and for the reply, and \<open>new Date()\<close> twice more when it touches the conversation (once
  for the \<open>updates\<close> argument, once inside \<open>updateConversation\<close>).
\<close>

record SendEnv =
  userMessageId :: jsstring
  userMessageDate :: int
  assistantMessageId :: jsstring
  assistantMessageDate :: int
  touchDate :: int
  updateDate :: int

definition chatHistoryOf :: "Message list \<Rightarrow> ChatTurn list" where
  "chatHistoryOf msgs =
     map (\<lambda>msg. \<lparr>turn_role = role msg, turn_content = content msg,
                  turn_images = (case metadata msg of
                                   Some (MetaImages imgs) \<Rightarrow> Some imgs
                                 | _ \<Rightarrow> None)\<rparr>) msgs"

definition userTurn :: "jsstring \<Rightarrow> ChatMessage \<Rightarrow> InsertMessage" where
  "userTurn cid messageData =
     \<lparr>im_conversationId = cid, im_role = js ''user'', im_content = cm_content messageData,
      im_metadata = (case cm_images messageData of
                       Some imgs \<Rightarrow> Some (MetaImages imgs)
                     | None \<Rightarrow> None)\<rparr>"

definition postMessage ::
  "SDK \<Rightarrow> SendEnv \<Rightarrow> jsstring \<Rightarrow> json \<Rightarrow> MemStorage
     \<Rightarrow> (Message \<times> Message) HttpResponse \<times> MemStorage" where
  "postMessage sdk env cid body s =
     (case getConversation cid s of
        None \<Rightarrow> (Fail 404 (js ''Conversation not found''), s)
      | Some conversation \<Rightarrow>
          if conv_userId conversation \<noteq> Some mockUserId
          then (Fail 404 (js ''Conversation not found''), s)
          else
            (case ChatMessageSchema_parse body of
               Inl e \<Rightarrow> (Fail 500 (js ''Failed to send message''), s)
             | Inr messageData \<Rightarrow>
                 (case getApiKey mockUserId (conv_provider conversation) s of
                    None \<Rightarrow>
                      (Fail 400 (js ''API key not configured for '' @ conv_provider conversation),
                       s)
                  | Some apiKey \<Rightarrow>
                      (let (userMessage, s1) =
                             createMessage (userMessageId env) (userMessageDate env)
                               (userTurn cid messageData) s;
                           chatHistory = chatHistoryOf (getMessagesByConversationId cid s1)
                       in case snd (sendMessage sdk (conv_provider conversation)
                                      (keyValue apiKey) chatHistory
                                      (Some (conv_model conversation))) of
                            Inl e \<Rightarrow> (Fail 500 (js ''Failed to send message''), s1)
                          | Inr aiResponse \<Rightarrow>
                              (let (assistantMessage, s2) =
                                     createMessage (assistantMessageId env)
                                       (assistantMessageDate env)
                                       \<lparr>im_conversationId = cid, im_role = js ''assistant'',
                                        im_content = ai_content aiResponse,
                                        im_metadata = Some (MetaUsage (ai_usage aiResponse))\<rparr>
                                       s1;
                                   s3 = snd (updateConversation cid
                                               \<lparr>upd_title = None, upd_provider = None,
                                                upd_model = None,
                                                upd_updatedAt = Some (touchDate env)\<rparr>
                                               (updateDate env) s2)
                               in (Ok (userMessage, assistantMessage), s3))))))"

text \<open>The key value shown to the client: its first 8 code units and 40 bullets (U+2022).\<close>

definition maskKey :: "jsstring \<Rightarrow> jsstring" where
  "maskKey k = take 8 k @ replicate 40 (0x2022 :: jschar)"

definition getApiKeys :: "MemStorage \<Rightarrow> ApiKey list HttpResponse \<times> MemStorage" where
  "getApiKeys s =
     (let keys = getApiKeysByUserId mockUserId s;
          sanitizedKeys = map (\<lambda>key. key\<lparr>keyValue := maskKey (keyValue key)\<rparr>) keys
      in (Ok sanitizedKeys, s))"

definition postApiKey ::
  "jsstring \<Rightarrow> int \<Rightarrow> json \<Rightarrow> MemStorage \<Rightarrow> ApiKey HttpResponse \<times> MemStorage" where
  "postApiKey uuid now body s =
     (case insertApiKeySchema_parse mockUserId body of
        Inl e \<Rightarrow> (Fail 400 (js ''Invalid API key data''), s)
      | Inr validatedData \<Rightarrow>
          (let (apiKey, s') = setApiKey uuid now validatedData s
           in (Ok (apiKey\<lparr>keyValue := maskKey (keyValue apiKey)\<rparr>), s')))"

definition deleteApiKeyRoute :: "jsstring \<Rightarrow> MemStorage \<Rightarrow> unit HttpResponse \<times> MemStorage" where
  "deleteApiKeyRoute prov s =
     (case AIProvider_parse prov of
        None \<Rightarrow> (Fail 400 (js ''Invalid provider''), s)
      | Some p \<Rightarrow> (Ok (), snd (deleteApiKey mockUserId (providerName p) s)))"


section \<open>Notions used in the statements\<close>

text \<open>What the \<open>forEach\<close> of \<open>setApiKey\<close> amounts to on a well-formed map: the keys of the
  pair get \<open>isActive = false\<close> where they stand.\<close>

definition deact_all :: "(ApiKey \<Rightarrow> bool) \<Rightarrow> ApiKey jsmap \<Rightarrow> ApiKey jsmap" where
  "deact_all P m = map (\<lambda>e. if P (snd e) then (fst e, (snd e)\<lparr>isActive := False\<rparr>) else e) m"

text \<open>No two active keys of the store have the same user and provider.\<close>

definition active_unique :: "MemStorage \<Rightarrow> bool" where
  "active_unique s =
     distinct (map (\<lambda>key. (userId key, provider key)) (filter isActive (Map_values (apiKeys s))))"

text \<open>
  An SDK call resolves when the client does not throw and the sender can read its response:
  a chat completion of the OpenAI client needs at least one choice.
\<close>

fun resolves :: "SDK \<Rightarrow> Outbound \<Rightarrow> bool" where
  "resolves sdk (ChatCompletionsCreate r) =
     (case chat_completions_create sdk r of Inl e \<Rightarrow> False | Inr c \<Rightarrow> choices c \<noteq> [])"
| "resolves sdk (MessagesCreate r) =
     (case messages_create sdk r of Inl e \<Rightarrow> False | Inr x \<Rightarrow> True)"
| "resolves sdk (GenerateContent r) =
     (case generateContent sdk r of Inl e \<Rightarrow> False | Inr x \<Rightarrow> True)"
| "resolves sdk (TextGeneration r) =
     (case textGeneration sdk r of Inl e \<Rightarrow> False | Inr x \<Rightarrow> True)"
| "resolves sdk (ChatComplete r) =
     (case chat_complete sdk r of Inl e \<Rightarrow> False | Inr x \<Rightarrow> True)"
| "resolves sdk (CohereChat r) =
     (case cohere_chat sdk r of Inl e \<Rightarrow> False | Inr x \<Rightarrow> True)"

text \<open>The providers whose senders never look at \<open>images\<close>, and a turn without its images.\<close>

definition noImageSupport :: "AIProviderType list" where
  "noImageSupport = [Huggingface, Cerebras, Sambanova, Mistral, Cohere, Xai, Perplexity,
                     Together, Fireworks]"

definition withoutImages :: "ChatTurn \<Rightarrow> ChatTurn" where
  "withoutImages t = t\<lparr>turn_images := None\<rparr>"

text \<open>A key with everything of its secret after the first 8 code units cut off.\<close>

definition redact :: "ApiKey \<Rightarrow> ApiKey" where
  "redact key = key\<lparr>keyValue := take 8 (keyValue key)\<rparr>"

section \<open>Concrete runs\<close>

definition answeringSDK :: SDK where
  "answeringSDK =
     \<lparr>chat_completions_create = (\<lambda>r. Inr \<lparr>choices = [Some (js ''Hi'')], cc_usage = None\<rparr>),
      messages_create = (\<lambda>r. Inr \<lparr>an_content = [TextBlock (js ''Hi'')], an_usage = None\<rparr>),
      generateContent = (\<lambda>r. Inr (Some (js ''Hi''))),
      textGeneration = (\<lambda>r. Inr (tg_inputs r @ js '' Hi'')),
      chat_complete = (\<lambda>r. Inr \<lparr>mi_choices = Some [Some (js ''Hi'')], mi_usage = None\<rparr>),
      cohere_chat = (\<lambda>r. Inr (Some (js ''Hi'')))\<rparr>"

definition failingSDK :: SDK where
  "failingSDK =
     \<lparr>chat_completions_create = (\<lambda>r. Inl (UpstreamError (js ''401''))),
      messages_create = (\<lambda>r. Inl (UpstreamError (js ''401''))),
      generateContent = (\<lambda>r. Inl (UpstreamError (js ''401''))),
      textGeneration = (\<lambda>r. Inl (UpstreamError (js ''401''))),
      chat_complete = (\<lambda>r. Inl (UpstreamError (js ''401''))),
      cohere_chat = (\<lambda>r. Inl (UpstreamError (js ''401'')))\<rparr>"

text \<open>An SDK whose OpenAI client answers and whose other clients all reject.\<close>

definition openaiOnlySDK :: SDK where
  "openaiOnlySDK =
     failingSDK\<lparr>chat_completions_create :=
                  (\<lambda>r. Inr \<lparr>choices = [Some (js ''Hi'')], cc_usage = None\<rparr>)\<rparr>"

definition helloTurn :: ChatTurn where
  "helloTurn = \<lparr>turn_role = js ''user'', turn_content = js ''Hello'', turn_images = None\<rparr>"

definition pictureTurn :: ChatTurn where
  "pictureTurn = \<lparr>turn_role = js ''user'', turn_content = js ''Hello'',
                  turn_images = Some [js ''aGk='']\<rparr>"

definition testConversation :: "jsstring \<Rightarrow> Conversation" where
  "testConversation prov =
     \<lparr>conv_id = js ''c1'', title = js ''Test'', conv_userId = Some mockUserId,
      conv_provider = prov, conv_model = js ''gpt-4o'', conv_createdAt = 1000,
      updatedAt = 1000\<rparr>"

definition testKey :: "jsstring \<Rightarrow> jsstring \<Rightarrow> jsstring \<Rightarrow> bool \<Rightarrow> ApiKey" where
  "testKey ident prov secret active =
     \<lparr>key_id = ident, userId = mockUserId, provider = prov, keyValue = secret,
      isActive = active, key_createdAt = 500\<rparr>"

text \<open>A store with one conversation of the mock user and no key at all.\<close>

definition storeWithoutKey :: MemStorage where
  "storeWithoutKey =
     \<lparr>users = [], conversations = [(js ''c1'', testConversation (js ''openai''))],
      messages = [], apiKeys = []\<rparr>"

text \<open>The same with an active OpenAI key.\<close>

definition storeWithKey :: MemStorage where
  "storeWithKey =
     storeWithoutKey\<lparr>apiKeys := [(js ''k1'', testKey (js ''k1'') (js ''openai'')
                                                 (js ''sk-test-12345'') True)]\<rparr>"

text \<open>A conversation and an active key for \<open>foo\<close>, which is no provider.\<close>

definition storeWithFoo :: MemStorage where
  "storeWithFoo =
     \<lparr>users = [], conversations = [(js ''c1'', testConversation (js ''foo''))],
      messages = [],
      apiKeys = [(js ''k1'', testKey (js ''k1'') (js ''foo'') (js ''secret'') True)]\<rparr>"

definition testEnv :: SendEnv where
  "testEnv = \<lparr>userMessageId = js ''m1'', userMessageDate = 2000,
              assistantMessageId = js ''m2'', assistantMessageDate = 3000,
              touchDate = 3001, updateDate = 3002\<rparr>"

definition helloBody :: json where
  "helloBody = JObj [(js ''content'', JStr (js ''Hello''))]"

definition testMessage :: "jsstring \<Rightarrow> jsstring \<Rightarrow> int \<Rightarrow> Message" where
  "testMessage ident cid at =
     \<lparr>msg_id = ident, conversationId = cid, role = js ''user'', content = js ''Hello'',
      metadata = None, createdAt = at\<rparr>"

text \<open>Three messages stored against the order of their dates, two of them in \<open>c1\<close>.\<close>

definition storeOutOfOrder :: MemStorage where
  "storeOutOfOrder =
     \<lparr>users = [], conversations = [(js ''c1'', testConversation (js ''openai''))],
      messages = [(js ''m1'', testMessage (js ''m1'') (js ''c1'') 30),
                  (js ''m2'', testMessage (js ''m2'') (js ''c2'') 20),
                  (js ''m3'', testMessage (js ''m3'') (js ''c1'') 10)],
      apiKeys = []\<rparr>"


definition insertKey :: "jsstring \<Rightarrow> InsertApiKey" where
  "insertKey secret = \<lparr>ik_userId = mockUserId, ik_provider = js ''openai'',
                        ik_keyValue = secret, ik_isActive = None\<rparr>"

text \<open>The store after a first \<open>setApiKey\<close> on the empty one.\<close>

definition storeAfterFirstKey :: MemStorage where
  "storeAfterFirstKey = snd (setApiKey (js ''k1'') 500 (insertKey (js ''sk-old'')) emptyStorage)"

text \<open>An OpenAI key and an Anthropic key of the mock user, both active.\<close>

definition storeTwoPairs :: MemStorage where
  "storeTwoPairs =
     \<lparr>users = [], conversations = [(js ''c1'', testConversation (js ''openai''))],
      messages = [(js ''m1'', testMessage (js ''m1'') (js ''c1'') 30)],
      apiKeys = [(js ''k1'', testKey (js ''k1'') (js ''openai'') (js ''sk-old'') True),
                 (js ''k3'', testKey (js ''k3'') (js ''anthropic'') (js ''sk-ant'') True)]\<rparr>"

text \<open>\<open>storeWithKey\<close> with another secret that starts with the same 8 code units.\<close>

definition storeWithOtherKey :: MemStorage where
  "storeWithOtherKey =
     storeWithoutKey\<lparr>apiKeys := [(js ''k1'', testKey (js ''k1'') (js ''openai'')
                                                 (js ''sk-test-99999'') True)]\<rparr>"

section \<open>Properties\<close>

subsection \<open>Setting an API key\<close>

lemma Map_set_append_fresh:
  "k \<notin> fst ` set m \<Longrightarrow> Map_set k v m = m @ [(k, v)]"
  by (induction m) auto

lemma Map_set_middle:
  "k \<notin> fst ` set a \<Longrightarrow> Map_set k v (a @ (k, v0) # b) = a @ (k, v) # b"
  by (induction a) auto

lemma fst_deact_all: "map fst (deact_all P m) = map fst m"
  by (induction m) (auto simp: deact_all_def)

lemma foldl_deactivate_gen:
  "distinct (map fst (pre @ post)) \<Longrightarrow> list_all (\<lambda>e. key_id (snd e) = fst e) post \<Longrightarrow>
   foldl deactivate (deact_all P pre @ post) (filter P (map snd post)) = deact_all P (pre @ post)"
proof (induction post arbitrary: pre)
  case Nil
  then show ?case by simp
next
  case (Cons e post)
  obtain k v where e: "e = (k, v)" by (cases e)
  from Cons.prems have fresh: "k \<notin> fst ` set (deact_all P pre)"
  proof -
    have "k \<notin> set (map fst pre)" using Cons.prems(1) e by auto
    then show ?thesis using fst_deact_all[of P pre] by (metis list.set_map)
  qed
  have id: "key_id v = k" using Cons.prems e by simp
  have d: "distinct (map fst ((pre @ [e]) @ post))" using Cons.prems by simp
  have la: "list_all (\<lambda>e. key_id (snd e) = fst e) post" using Cons.prems by simp
  have ih: "foldl deactivate (deact_all P (pre @ [e]) @ post) (filter P (map snd post))
            = deact_all P ((pre @ [e]) @ post)"
    using Cons.IH[OF d la] .
  have step: "(if P v then deactivate (deact_all P pre @ e # post) v
               else deact_all P pre @ e # post) = deact_all P (pre @ [e]) @ post"
    using fresh id e by (simp add: deactivate_def Map_set_middle deact_all_def)
  have "foldl deactivate (deact_all P pre @ e # post) (filter P (map snd (e # post)))
        = foldl deactivate (if P v then deactivate (deact_all P pre @ e # post) v
                            else deact_all P pre @ e # post) (filter P (map snd post))"
    using e by simp
  also have "\<dots> = foldl deactivate (deact_all P (pre @ [e]) @ post) (filter P (map snd post))"
    by (simp only: step)
  also have "\<dots> = deact_all P ((pre @ [e]) @ post)" by (rule ih)
  finally show ?case by simp
qed

lemma foldl_deactivate:
  "keyed_by key_id m \<Longrightarrow> foldl deactivate m (filter P (Map_values m)) = deact_all P m"
  using foldl_deactivate_gen[of "[]" m P]
  by (simp add: keyed_by_def Map_ok_def Map_values_def deact_all_def)


lemma setApiKey_apiKeys:
  assumes "keyed_by key_id (apiKeys s)" "\<not> Map_has uuid (apiKeys s)"
  shows "apiKeys (snd (setApiKey uuid now apiKey s)) =
           deact_all (\<lambda>key. userId key = ik_userId apiKey \<and> provider key = ik_provider apiKey)
             (apiKeys s) @ [(uuid, fst (setApiKey uuid now apiKey s))]"
proof -
  let ?P = "\<lambda>key. userId key = ik_userId apiKey \<and> provider key = ik_provider apiKey"
  have "uuid \<notin> fst ` set (deact_all ?P (apiKeys s))"
    using assms(2) fst_deact_all[of ?P "apiKeys s"] by (metis Map_has_def list.set_map)
  then show ?thesis
    using foldl_deactivate[OF assms(1), of ?P]
    by (simp add: setApiKey_def Let_def Map_set_append_fresh)
qed

lemma setApiKey_frame:
  "users (snd (setApiKey uuid now apiKey s)) = users s \<and>
   conversations (snd (setApiKey uuid now apiKey s)) = conversations s \<and>
   messages (snd (setApiKey uuid now apiKey s)) = messages s"
  by (simp add: setApiKey_def Let_def)

lemma setApiKey_fst:
  "fst (setApiKey uuid now apiKey s) =
     \<lparr>key_id = uuid, userId = ik_userId apiKey, provider = ik_provider apiKey,
      keyValue = ik_keyValue apiKey, isActive = True, key_createdAt = now\<rparr>"
  by (simp add: setApiKey_def Let_def)

lemma keyed_by_deact_all:
  "keyed_by key_id m \<Longrightarrow> keyed_by key_id (deact_all P m)"
  unfolding keyed_by_def Map_ok_def fst_deact_all
  by (auto simp: deact_all_def list_all_iff)

lemma keyed_by_snoc:
  "keyed_by ident m \<Longrightarrow> \<not> Map_has k m \<Longrightarrow> ident v = k \<Longrightarrow> keyed_by ident (m @ [(k, v)])"
  by (auto simp: keyed_by_def Map_ok_def Map_has_def)

lemma Map_has_deact_all: "Map_has k (deact_all P m) = Map_has k m"
  by (simp add: Map_has_def fst_deact_all)

lemma setApiKey_store_ok:
  assumes "store_ok s" "\<not> Map_has uuid (apiKeys s)"
  shows "store_ok (snd (setApiKey uuid now apiKey s))"
proof -
  have k: "keyed_by key_id (apiKeys s)" using assms(1) by (simp add: store_ok_def)
  have "keyed_by key_id (apiKeys (snd (setApiKey uuid now apiKey s)))"
    unfolding setApiKey_apiKeys[OF k assms(2)]
    by (rule keyed_by_snoc) (simp_all add: keyed_by_deact_all k Map_has_deact_all assms(2) setApiKey_fst)
  then show ?thesis using assms(1) setApiKey_frame[of uuid now apiKey s]
    by (simp add: store_ok_def)
qed

lemma filter_active_deact_all:
  "filter (\<lambda>key. P key \<and> isActive key) (map snd (deact_all P m)) = []"
  by (induction m) (auto simp: deact_all_def)

lemma Map_get_deact_all:
  "Map_ok m \<Longrightarrow> (k, v) \<in> set m \<Longrightarrow>
   Map_get k (deact_all P m) = Some (if P v then v\<lparr>isActive := False\<rparr> else v)"
  unfolding Map_ok_def Map_get_def
  by (induction m) (auto simp: deact_all_def rev_image_eqI)

lemma Map_get_append_left:
  "Map_get k m = Some v \<Longrightarrow> Map_get k (m @ m') = Some v"
  by (simp add: Map_get_def)

lemma filter_isActive_deact_all:
  "filter isActive (map snd (deact_all P m)) = filter (\<lambda>key. isActive key \<and> \<not> P key) (map snd m)"
  by (induction m) (auto simp: deact_all_def)

lemma distinct_map_filter_conj:
  "distinct (map f (filter Q xs)) \<Longrightarrow> distinct (map f (filter (\<lambda>x. Q x \<and> R x) xs))"
  by (induction xs) (auto split: if_splits)

lemma find_filter: "find P xs = (case filter P xs of [] \<Rightarrow> None | x # _ \<Rightarrow> Some x)"
  by (induction xs) auto

lemma active_unique_setApiKey:
  assumes "keyed_by key_id (apiKeys s)" "\<not> Map_has uuid (apiKeys s)" "active_unique s"
  shows "active_unique (snd (setApiKey uuid now apiKey s))"
proof -
  let ?P = "\<lambda>key. userId key = ik_userId apiKey \<and> provider key = ik_provider apiKey"
  let ?pair = "\<lambda>key. (userId key, provider key)"
  have d: "distinct (map ?pair (filter (\<lambda>key. isActive key \<and> \<not> ?P key) (map snd (apiKeys s))))"
    using assms(3) unfolding active_unique_def Map_values_def
    by (rule distinct_map_filter_conj)
  show ?thesis
    unfolding active_unique_def Map_values_def setApiKey_apiKeys[OF assms(1,2)]
    using d by (auto simp: filter_isActive_deact_all setApiKey_fst)
qed

text \<open>
  Claim C2. In a well-formed store, after \<open>setApiKey\<close> with a fresh id exactly one key of
  the (userId, provider) pair is active, namely the new one, and \<open>getApiKey\<close> finds it;
  every key the pair had before is still stored under its id, with \<open>isActive\<close> false and
  nothing else changed. The store stays well-formed, so the same holds for the next call, and
  a store with at most one active key per pair keeps that property.
\<close>

theorem setApiKey_exactly_one_active:
  assumes "store_ok s" and "\<not> Map_has uuid (apiKeys s)"
  shows "filter (\<lambda>key. userId key = ik_userId apiKey \<and> provider key = ik_provider apiKey \<and>
                        isActive key)
           (Map_values (apiKeys (snd (setApiKey uuid now apiKey s))))
         = [fst (setApiKey uuid now apiKey s)]
       \<and> isActive (fst (setApiKey uuid now apiKey s))
       \<and> getApiKey (ik_userId apiKey) (ik_provider apiKey) (snd (setApiKey uuid now apiKey s))
         = Some (fst (setApiKey uuid now apiKey s))
       \<and> (\<forall>(k, old) \<in> set (apiKeys s).
             userId old = ik_userId apiKey \<and> provider old = ik_provider apiKey \<longrightarrow>
             Map_get k (apiKeys (snd (setApiKey uuid now apiKey s)))
               = Some (old\<lparr>isActive := False\<rparr>))
       \<and> store_ok (snd (setApiKey uuid now apiKey s))
       \<and> (active_unique s \<longrightarrow> active_unique (snd (setApiKey uuid now apiKey s)))"
proof -
  let ?P = "\<lambda>key. userId key = ik_userId apiKey \<and> provider key = ik_provider apiKey"
  let ?new = "fst (setApiKey uuid now apiKey s)"
  let ?s' = "snd (setApiKey uuid now apiKey s)"
  have k: "keyed_by key_id (apiKeys s)" using assms(1) by (simp add: store_ok_def)
  have eq: "apiKeys ?s' = deact_all ?P (apiKeys s) @ [(uuid, ?new)]"
    by (rule setApiKey_apiKeys[OF k assms(2)])
  have one: "filter (\<lambda>key. ?P key \<and> isActive key) (Map_values (apiKeys ?s')) = [?new]"
    unfolding eq Map_values_def
    using filter_active_deact_all[of ?P "apiKeys s"] by (simp add: setApiKey_fst)
  have act: "isActive ?new" by (simp add: setApiKey_fst)
  have get: "getApiKey (ik_userId apiKey) (ik_provider apiKey) ?s' = Some ?new"
  proof -
    have "find (\<lambda>key. ?P key \<and> isActive key) (Map_values (apiKeys ?s')) = Some ?new"
      using one by (simp add: find_filter conj_assoc)
    then show ?thesis by (simp add: getApiKey_def conj_assoc)
  qed
  have prior: "\<forall>(k, old) \<in> set (apiKeys s). ?P old \<longrightarrow>
                 Map_get k (apiKeys ?s') = Some (old\<lparr>isActive := False\<rparr>)"
  proof (clarify)
    fix k old assume "(k, old) \<in> set (apiKeys s)" "userId old = ik_userId apiKey" "provider old = ik_provider apiKey"
    then have "Map_get k (deact_all ?P (apiKeys s)) = Some (old\<lparr>isActive := False\<rparr>)"
      using Map_get_deact_all[of "apiKeys s" k old ?P] k by (simp add: keyed_by_def)
    then show "Map_get k (apiKeys ?s') = Some (old\<lparr>isActive := False\<rparr>)"
      unfolding eq by (rule Map_get_append_left)
  qed
  have ok: "store_ok ?s'" by (rule setApiKey_store_ok[OF assms])
  have au: "active_unique s \<longrightarrow> active_unique ?s'"
    using active_unique_setApiKey[OF k assms(2)] by blast
  show ?thesis using one act get prior ok au by (simp add: conj_assoc)
qed

text \<open>
  Claim C10. \<open>setApiKey\<close> with a fresh id on a well-formed store leaves every key that was
  there under its id and in its place: a key of the new key's (userId, provider) pair differs
  from before in \<open>isActive\<close> only, a key of another pair is the same. The maps of users,
  conversations and messages are the same.
\<close>

theorem setApiKey_frame_preserving:
  assumes "store_ok s" and "\<not> Map_has uuid (apiKeys s)"
  shows "(\<forall>(k, old) \<in> set (apiKeys s).
            Map_get k (apiKeys (snd (setApiKey uuid now apiKey s)))
              = Some (if userId old = ik_userId apiKey \<and> provider old = ik_provider apiKey
                      then old\<lparr>isActive := False\<rparr> else old))
       \<and> map fst (apiKeys (snd (setApiKey uuid now apiKey s))) = map fst (apiKeys s) @ [uuid]
       \<and> users (snd (setApiKey uuid now apiKey s)) = users s
       \<and> conversations (snd (setApiKey uuid now apiKey s)) = conversations s
       \<and> messages (snd (setApiKey uuid now apiKey s)) = messages s"
proof -
  let ?P = "\<lambda>key. userId key = ik_userId apiKey \<and> provider key = ik_provider apiKey"
  let ?s' = "snd (setApiKey uuid now apiKey s)"
  have k: "keyed_by key_id (apiKeys s)" using assms(1) by (simp add: store_ok_def)
  have eq: "apiKeys ?s' = deact_all ?P (apiKeys s) @ [(uuid, fst (setApiKey uuid now apiKey s))]"
    by (rule setApiKey_apiKeys[OF k assms(2)])
  have keys: "\<forall>(k, old) \<in> set (apiKeys s).
                Map_get k (apiKeys ?s') = Some (if ?P old then old\<lparr>isActive := False\<rparr> else old)"
  proof (clarify)
    fix k old assume "(k, old) \<in> set (apiKeys s)"
    then have "Map_get k (deact_all ?P (apiKeys s)) = Some (if ?P old then old\<lparr>isActive := False\<rparr> else old)"
      using Map_get_deact_all[of "apiKeys s" k old ?P] k by (simp add: keyed_by_def)
    then show "Map_get k (apiKeys ?s') = Some (if ?P old then old\<lparr>isActive := False\<rparr> else old)"
      unfolding eq by (rule Map_get_append_left)
  qed
  have order: "map fst (apiKeys ?s') = map fst (apiKeys s) @ [uuid]"
    unfolding eq by (simp add: fst_deact_all)
  show ?thesis using keys order setApiKey_frame[of uuid now apiKey s] by simp
qed

subsection \<open>Deleting a conversation, listing its messages\<close>

lemma foldl_Map_delete:
  "foldl (\<lambda>m msg. snd (Map_delete (ident msg) m)) m xs
     = filter (\<lambda>e. fst e \<notin> ident ` set xs) m"
proof (induction xs arbitrary: m)
  case Nil
  then show ?case by simp
next
  case (Cons x xs)
  have "foldl (\<lambda>m msg. snd (Map_delete (ident msg) m)) m (x # xs)
        = foldl (\<lambda>m msg. snd (Map_delete (ident msg) m)) (snd (Map_delete (ident x) m)) xs"
    by simp
  also have "\<dots> = filter (\<lambda>e. fst e \<notin> ident ` set xs) (snd (Map_delete (ident x) m))"
    by (rule Cons.IH)
  also have "\<dots> = filter (\<lambda>e. fst e \<notin> ident ` set (x # xs)) m"
    unfolding Map_delete_def by (induction m) auto
  finally show ?case .
qed

lemma distinct_fst_eq:
  "distinct (map fst m) \<Longrightarrow> e \<in> set m \<Longrightarrow> e' \<in> set m \<Longrightarrow> fst e' = fst e \<Longrightarrow> e' = e"
  by (induction m) (auto simp: rev_image_eqI prod_eq_iff)

lemma keyed_by_key_in:
  assumes "keyed_by ident m" "e \<in> set m"
  shows "fst e \<in> ident ` set (filter P (map snd m)) \<longleftrightarrow> P (snd e)"
proof
  assume "fst e \<in> ident ` set (filter P (map snd m))"
  then obtain e' where e': "e' \<in> set m" "P (snd e')" "ident (snd e') = fst e" by auto
  then have "fst e' = fst e" using assms(1) by (auto simp: keyed_by_def list_all_iff)
  then have "e' = e"
    using assms e'(1) distinct_fst_eq[of m e e'] by (simp add: keyed_by_def Map_ok_def)
  then show "P (snd e)" using e'(2) by simp
next
  assume p: "P (snd e)"
  have i: "ident (snd e) = fst e" using assms by (auto simp: keyed_by_def list_all_iff)
  have "snd e \<in> set (filter P (map snd m))" using p assms(2) by auto
  then have "ident (snd e) \<in> ident ` set (filter P (map snd m))" by (rule imageI)
  then show "fst e \<in> ident ` set (filter P (map snd m))" by (simp only: i)
qed

lemma deleteMessages_messages:
  assumes "keyed_by msg_id (messages s)"
  shows "messages (snd (deleteMessagesByConversationId cid s))
           = filter (\<lambda>e. conversationId (snd e) \<noteq> cid) (messages s)"
proof -
  let ?del = "filter (\<lambda>msg. conversationId msg = cid) (map snd (messages s))"
  have "\<And>e. e \<in> set (messages s) \<Longrightarrow>
          (fst e \<notin> msg_id ` set ?del) = (conversationId (snd e) \<noteq> cid)"
    using keyed_by_key_in[OF assms, of _ "\<lambda>msg. conversationId msg = cid"] by blast
  then have "filter (\<lambda>e. fst e \<notin> msg_id ` set ?del) (messages s)
        = filter (\<lambda>e. conversationId (snd e) \<noteq> cid) (messages s)"
    by (rule filter_cong[OF refl])
  then show ?thesis
    unfolding deleteMessagesByConversationId_def Let_def foldl_Map_delete Map_values_def
    by simp
qed

lemma deleteMessages_frame:
  "users (snd (deleteMessagesByConversationId cid s)) = users s \<and>
   conversations (snd (deleteMessagesByConversationId cid s)) = conversations s \<and>
   apiKeys (snd (deleteMessagesByConversationId cid s)) = apiKeys s"
  by (simp add: deleteMessagesByConversationId_def Let_def)

lemma Map_has_after_delete: "\<not> Map_has k (snd (Map_delete k m))"
  by (auto simp: Map_has_def Map_delete_def)

lemma Map_get_after_delete: "Map_get k (snd (Map_delete k m)) = None"
  by (auto simp: Map_get_def Map_delete_def map_of_eq_None_iff)

text \<open>
  Claim C7. \<open>deleteConversation\<close> deletes the messages of the conversation first and the
  conversation after that, and returns whether the conversation was there. In a well-formed
  store the messages left are those of the other conversations, so listing the messages of
  the deleted conversation gives the empty list; the conversation is gone, and deleting it
  once more returns false.
\<close>

theorem deleteConversation_cascade:
  assumes "store_ok s"
  shows "deleteConversation cid s =
           (let s1 = snd (deleteMessagesByConversationId cid s)
            in (Map_has cid (conversations s),
                s1\<lparr>conversations := snd (Map_delete cid (conversations s1))\<rparr>))
       \<and> messages (snd (deleteConversation cid s))
           = filter (\<lambda>e. conversationId (snd e) \<noteq> cid) (messages s)
       \<and> getMessagesByConversationId cid (snd (deleteConversation cid s)) = []
       \<and> getConversation cid (snd (deleteConversation cid s)) = None
       \<and> fst (deleteConversation cid (snd (deleteConversation cid s))) = False"
proof -
  have k: "keyed_by msg_id (messages s)" using assms by (simp add: store_ok_def)
  have unfold: "deleteConversation cid s =
           (let s1 = snd (deleteMessagesByConversationId cid s)
            in (Map_has cid (conversations s),
                s1\<lparr>conversations := snd (Map_delete cid (conversations s1))\<rparr>))"
    using deleteMessages_frame[of cid s]
    by (simp add: deleteConversation_def Let_def Map_delete_def)
  have msgs: "messages (snd (deleteConversation cid s))
           = filter (\<lambda>e. conversationId (snd e) \<noteq> cid) (messages s)"
    using deleteMessages_messages[OF k, of cid] by (simp add: unfold Let_def)
  have none: "getMessagesByConversationId cid (snd (deleteConversation cid s)) = []"
  proof -
    have "filter (\<lambda>msg. conversationId msg = cid)
            (map snd (filter (\<lambda>e. conversationId (snd e) \<noteq> cid) (messages s))) = []"
      by (induction "messages s") (auto simp: filter_empty_conv)
    then show ?thesis by (simp add: getMessagesByConversationId_def msgs Map_values_def)
  qed
  have gone: "getConversation cid (snd (deleteConversation cid s)) = None"
    by (simp add: unfold Let_def getConversation_def Map_get_after_delete)
  have "\<not> Map_has cid (conversations (snd (deleteConversation cid s)))"
    by (simp add: unfold Let_def Map_has_after_delete)
  then have again: "fst (deleteConversation cid (snd (deleteConversation cid s))) = False"
    using deleteMessages_frame[of cid "snd (deleteConversation cid s)"]
    by (simp add: deleteConversation_def Let_def Map_delete_def)
  show ?thesis using unfold msgs none gone again by simp
qed

text \<open>
  Claim C8. Whatever the store and the order of its entries, \<open>getMessagesByConversationId\<close>
  returns exactly the stored messages of the conversation (each as often as it is stored),
  in non-decreasing order of \<open>createdAt\<close>.
\<close>

theorem getMessagesByConversationId_sorted:
  "sorted (map createdAt (getMessagesByConversationId cid s))
   \<and> mset (getMessagesByConversationId cid s)
       = filter_mset (\<lambda>msg. conversationId msg = cid) (mset (Map_values (messages s)))"
  by (simp add: getMessagesByConversationId_def)

subsection \<open>Runs on concrete stores\<close>

lemma js_simps: "js [] = []" "js (c # cs) = of_char c # js cs"
  by (simp_all add: js_def)

text \<open>
  Messages stored in the order of dates 30, 20, 10 come back by date: 10, 30 for \<open>c1\<close>.
\<close>

theorem getMessagesByConversationId_sorted_witness:
  "getMessagesByConversationId (js ''c1'') storeOutOfOrder
     = [testMessage (js ''m3'') (js ''c1'') 10, testMessage (js ''m1'') (js ''c1'') 30]
   \<and> sorted (map createdAt (getMessagesByConversationId (js ''c1'') storeOutOfOrder))
   \<and> mset (getMessagesByConversationId (js ''c1'') storeOutOfOrder)
       = filter_mset (\<lambda>msg. conversationId msg = js ''c1'')
           (mset (Map_values (messages storeOutOfOrder)))"
proof -
  have "getMessagesByConversationId (js ''c1'') storeOutOfOrder
     = [testMessage (js ''m3'') (js ''c1'') 10, testMessage (js ''m1'') (js ''c1'') 30]"
    by (simp add: getMessagesByConversationId_def storeOutOfOrder_def Map_values_def
                  testMessage_def js_simps)
  then show ?thesis
    using getMessagesByConversationId_sorted[of "js ''c1''" storeOutOfOrder] by simp
qed

lemma store_ok_storeOutOfOrder: "store_ok storeOutOfOrder"
  by (simp add: store_ok_def keyed_by_def Map_ok_def storeOutOfOrder_def testMessage_def
                testConversation_def js_simps)

text \<open>
  Deleting \<open>c1\<close> from a store with two messages of \<open>c1\<close> and one of \<open>c2\<close>.
\<close>

theorem deleteConversation_cascade_witness:
  "store_ok storeOutOfOrder
   \<and> fst (deleteConversation (js ''c1'') storeOutOfOrder) = True
   \<and> messages (snd (deleteConversation (js ''c1'') storeOutOfOrder))
       = [(js ''m2'', testMessage (js ''m2'') (js ''c2'') 20)]
   \<and> getMessagesByConversationId (js ''c1'') (snd (deleteConversation (js ''c1'') storeOutOfOrder)) = []
   \<and> getConversation (js ''c1'') (snd (deleteConversation (js ''c1'') storeOutOfOrder)) = None
   \<and> fst (deleteConversation (js ''c1'') (snd (deleteConversation (js ''c1'') storeOutOfOrder))) = False"
proof -
  have has: "Map_has (js ''c1'') (conversations storeOutOfOrder)"
    by (simp add: Map_has_def storeOutOfOrder_def)
  have flt: "filter (\<lambda>e. conversationId (snd e) \<noteq> js ''c1'') (messages storeOutOfOrder)
             = [(js ''m2'', testMessage (js ''m2'') (js ''c2'') 20)]"
    by (simp add: storeOutOfOrder_def testMessage_def js_simps)
  note t = deleteConversation_cascade[OF store_ok_storeOutOfOrder, of "js ''c1''"]
  have r1: "fst (deleteConversation (js ''c1'') storeOutOfOrder) = True"
    using t[THEN conjunct1] has by (simp add: Let_def)
  have r2: "messages (snd (deleteConversation (js ''c1'') storeOutOfOrder))
              = [(js ''m2'', testMessage (js ''m2'') (js ''c2'') 20)]"
    using t[THEN conjunct2, THEN conjunct1] flt by (rule trans)
  show ?thesis
    using store_ok_storeOutOfOrder r1 r2 t[THEN conjunct2, THEN conjunct2] by blast
qed

lemma storeAfterFirstKey_eq:
  "storeAfterFirstKey =
     \<lparr>users = [], conversations = [], messages = [],
      apiKeys = [(js ''k1'', testKey (js ''k1'') (js ''openai'') (js ''sk-old'') True)]\<rparr>"
  by (simp add: storeAfterFirstKey_def setApiKey_def emptyStorage_def insertKey_def
                testKey_def Map_values_def Let_def)

lemma store_ok_storeAfterFirstKey: "store_ok storeAfterFirstKey"
  by (simp add: storeAfterFirstKey_eq store_ok_def keyed_by_def Map_ok_def testKey_def)

text \<open>
  The second of two \<open>setApiKey\<close> calls for the same user and provider: the new key is the
  only active one, the first key is still there, inactive.
\<close>

theorem setApiKey_exactly_one_active_witness:
  "store_ok storeAfterFirstKey
   \<and> \<not> Map_has (js ''k2'') (apiKeys storeAfterFirstKey)
   \<and> filter (\<lambda>key. userId key = mockUserId \<and> provider key = js ''openai'' \<and> isActive key)
        (Map_values (apiKeys (snd (setApiKey (js ''k2'') 600 (insertKey (js ''sk-new''))
                                     storeAfterFirstKey))))
       = [testKey (js ''k2'') (js ''openai'') (js ''sk-new'') True\<lparr>key_createdAt := 600\<rparr>]
   \<and> getApiKey mockUserId (js ''openai'')
        (snd (setApiKey (js ''k2'') 600 (insertKey (js ''sk-new'')) storeAfterFirstKey))
       = Some (testKey (js ''k2'') (js ''openai'') (js ''sk-new'') True\<lparr>key_createdAt := 600\<rparr>)
   \<and> Map_get (js ''k1'')
        (apiKeys (snd (setApiKey (js ''k2'') 600 (insertKey (js ''sk-new'')) storeAfterFirstKey)))
       = Some (testKey (js ''k1'') (js ''openai'') (js ''sk-old'') False)"
proof -
  have fresh: "\<not> Map_has (js ''k2'') (apiKeys storeAfterFirstKey)"
    by (simp add: storeAfterFirstKey_eq Map_has_def js_simps)
  have new: "fst (setApiKey (js ''k2'') 600 (insertKey (js ''sk-new'')) storeAfterFirstKey)
             = testKey (js ''k2'') (js ''openai'') (js ''sk-new'') True\<lparr>key_createdAt := 600\<rparr>"
    by (simp add: setApiKey_fst insertKey_def testKey_def)
  have old: "(js ''k1'', testKey (js ''k1'') (js ''openai'') (js ''sk-old'') True)
               \<in> set (apiKeys storeAfterFirstKey)"
    by (simp add: storeAfterFirstKey_eq)
  note t = setApiKey_exactly_one_active[OF store_ok_storeAfterFirstKey fresh,
             where apiKey = "insertKey (js ''sk-new'')" and now = 600, unfolded new]
  have one: "filter (\<lambda>key. userId key = mockUserId \<and> provider key = js ''openai'' \<and> isActive key)
        (Map_values (apiKeys (snd (setApiKey (js ''k2'') 600 (insertKey (js ''sk-new''))
                                     storeAfterFirstKey))))
       = [testKey (js ''k2'') (js ''openai'') (js ''sk-new'') True\<lparr>key_createdAt := 600\<rparr>]"
    using t[THEN conjunct1] by (simp add: insertKey_def)
  have get: "getApiKey mockUserId (js ''openai'')
        (snd (setApiKey (js ''k2'') 600 (insertKey (js ''sk-new'')) storeAfterFirstKey))
       = Some (testKey (js ''k2'') (js ''openai'') (js ''sk-new'') True\<lparr>key_createdAt := 600\<rparr>)"
    using t[THEN conjunct2, THEN conjunct2, THEN conjunct1] by (simp add: insertKey_def)
  have prior: "Map_get (js ''k1'')
        (apiKeys (snd (setApiKey (js ''k2'') 600 (insertKey (js ''sk-new'')) storeAfterFirstKey)))
       = Some (testKey (js ''k1'') (js ''openai'') (js ''sk-old'') False)"
    using t[THEN conjunct2, THEN conjunct2, THEN conjunct2, THEN conjunct1] old
    by (auto simp: insertKey_def testKey_def)
  show ?thesis using store_ok_storeAfterFirstKey fresh one get prior by blast
qed

lemma store_ok_storeTwoPairs: "store_ok storeTwoPairs"
  by (simp add: storeTwoPairs_def store_ok_def keyed_by_def Map_ok_def testKey_def
                testMessage_def testConversation_def js_simps)

text \<open>
  A store with an OpenAI key and an Anthropic key, one conversation and one message; a new
  OpenAI key is set.
\<close>

theorem setApiKey_frame_preserving_witness:
  "store_ok storeTwoPairs
   \<and> \<not> Map_has (js ''k2'') (apiKeys storeTwoPairs)
   \<and> Map_get (js ''k1'')
        (apiKeys (snd (setApiKey (js ''k2'') 600 (insertKey (js ''sk-new'')) storeTwoPairs)))
       = Some (testKey (js ''k1'') (js ''openai'') (js ''sk-old'') False)
   \<and> Map_get (js ''k3'')
        (apiKeys (snd (setApiKey (js ''k2'') 600 (insertKey (js ''sk-new'')) storeTwoPairs)))
       = Some (testKey (js ''k3'') (js ''anthropic'') (js ''sk-ant'') True)
   \<and> map fst (apiKeys (snd (setApiKey (js ''k2'') 600 (insertKey (js ''sk-new'')) storeTwoPairs)))
       = [js ''k1'', js ''k3'', js ''k2'']
   \<and> users (snd (setApiKey (js ''k2'') 600 (insertKey (js ''sk-new'')) storeTwoPairs))
       = users storeTwoPairs
   \<and> conversations (snd (setApiKey (js ''k2'') 600 (insertKey (js ''sk-new'')) storeTwoPairs))
       = conversations storeTwoPairs
   \<and> messages (snd (setApiKey (js ''k2'') 600 (insertKey (js ''sk-new'')) storeTwoPairs))
       = messages storeTwoPairs"
proof -
  have fresh: "\<not> Map_has (js ''k2'') (apiKeys storeTwoPairs)"
    by (simp add: storeTwoPairs_def Map_has_def js_simps)
  have k1: "(js ''k1'', testKey (js ''k1'') (js ''openai'') (js ''sk-old'') True)
               \<in> set (apiKeys storeTwoPairs)"
    and k3: "(js ''k3'', testKey (js ''k3'') (js ''anthropic'') (js ''sk-ant'') True)
               \<in> set (apiKeys storeTwoPairs)"
    by (simp_all add: storeTwoPairs_def)
  note t = setApiKey_frame_preserving[OF store_ok_storeTwoPairs fresh,
             where apiKey = "insertKey (js ''sk-new'')" and now = 600]
  have g1: "Map_get (js ''k1'')
        (apiKeys (snd (setApiKey (js ''k2'') 600 (insertKey (js ''sk-new'')) storeTwoPairs)))
       = Some (testKey (js ''k1'') (js ''openai'') (js ''sk-old'') False)"
    using t[THEN conjunct1] k1 by (auto simp: insertKey_def testKey_def)
  have g3: "Map_get (js ''k3'')
        (apiKeys (snd (setApiKey (js ''k2'') 600 (insertKey (js ''sk-new'')) storeTwoPairs)))
       = Some (testKey (js ''k3'') (js ''anthropic'') (js ''sk-ant'') True)"
    using t[THEN conjunct1] k3 by (auto simp: insertKey_def testKey_def js_simps)
  have ord: "map fst (apiKeys (snd (setApiKey (js ''k2'') 600 (insertKey (js ''sk-new'')) storeTwoPairs)))
       = [js ''k1'', js ''k3'', js ''k2'']"
    using t[THEN conjunct2, THEN conjunct1] by (simp add: storeTwoPairs_def)
  show ?thesis
    using store_ok_storeTwoPairs fresh g1 g3 ord t[THEN conjunct2, THEN conjunct2] by blast
qed

subsection \<open>The provider service\<close>

lemma AIProvider_parse_name: "AIProvider_parse (providerName p) = Some p"
  by (cases p) (simp_all add: AIProvider_parse_def allProviders_def js_simps)

lemma sendMessage_known:
  "sendMessage sdk (providerName p) apiKey history model =
     (case p of
        Openai \<Rightarrow> sendOpenAIMessage sdk apiKey history (selectModel p model)
      | Anthropic \<Rightarrow> sendAnthropicMessage sdk apiKey history (selectModel p model)
      | Google \<Rightarrow> sendGoogleMessage sdk apiKey history (selectModel p model)
      | Huggingface \<Rightarrow> sendHuggingFaceMessage sdk apiKey history (selectModel p model)
      | Cerebras \<Rightarrow> sendCerebrasMessage sdk apiKey history (selectModel p model)
      | Sambanova \<Rightarrow> sendSambanovaMessage sdk apiKey history (selectModel p model)
      | Mistral \<Rightarrow> sendMistralMessage sdk apiKey history (selectModel p model)
      | Cohere \<Rightarrow> sendCohereMessage sdk apiKey history (selectModel p model)
      | Xai \<Rightarrow> sendXAIMessage sdk apiKey history (selectModel p model)
      | Perplexity \<Rightarrow> sendPerplexityMessage sdk apiKey history (selectModel p model)
      | Together \<Rightarrow> sendTogetherMessage sdk apiKey history (selectModel p model)
      | Fireworks \<Rightarrow> sendFireworksMessage sdk apiKey history (selectModel p model))"
  unfolding sendMessage_def AIProvider_parse_name by (simp add: Let_def)

lemma chatCompletionReply_fields:
  "chatCompletionReply outcome model prov = Inr r \<Longrightarrow> ai_provider r = prov \<and> ai_model r = model"
  by (auto simp: chatCompletionReply_def split: sum.splits list.splits)

lemma sendCompatibleMessage_fields:
  "snd (sendCompatibleMessage url prov sdk apiKey history model) = Inr r \<Longrightarrow>
   ai_provider r = prov \<and> ai_model r = model"
  by (simp add: sendCompatibleMessage_def Let_def chatCompletionReply_fields)

lemmas compatible_defs =
  sendCerebrasMessage_def sendSambanovaMessage_def sendXAIMessage_def
  sendPerplexityMessage_def sendTogetherMessage_def sendFireworksMessage_def

lemma sendMessage_fields:
  assumes "snd (sendMessage sdk (providerName p) apiKey history model) = Inr r"
  shows "ai_provider r = providerName p \<and> ai_model r = selectModel p model"
proof -
  note eq = assms[unfolded sendMessage_known]
  show ?thesis
  proof (cases p)
    case Openai
    then show ?thesis using eq
      by (simp add: sendOpenAIMessage_def Let_def chatCompletionReply_fields)
  next
    case Anthropic
    then show ?thesis using eq
      by (auto simp: sendAnthropicMessage_def Let_def split: sum.splits)
  next
    case Google
    then show ?thesis using eq
      by (auto simp: sendGoogleMessage_def Let_def split: sum.splits)
  next
    case Huggingface
    then show ?thesis using eq
      by (auto simp: sendHuggingFaceMessage_def Let_def split: sum.splits)
  next
    case Mistral
    then show ?thesis using eq
      by (auto simp: sendMistralMessage_def Let_def split: sum.splits)
  next
    case Cohere
    then show ?thesis using eq
      by (auto simp: sendCohereMessage_def Let_def split: sum.splits if_splits)
  qed (use eq in \<open>simp_all add: compatible_defs sendCompatibleMessage_fields\<close>)
qed

lemma chatCompletionReply_resolves:
  "(\<exists>r. chatCompletionReply (chat_completions_create sdk req) model prov = Inr r)
     \<longleftrightarrow> resolves sdk (ChatCompletionsCreate req)"
  by (simp add: chatCompletionReply_def split: sum.splits list.splits)

lemma sendCompatibleMessage_call:
  "\<exists>call. fst (sendCompatibleMessage url prov sdk apiKey history model) = [call] \<and>
          (resolves sdk call \<longleftrightarrow>
           (\<exists>r. snd (sendCompatibleMessage url prov sdk apiKey history model) = Inr r))"
  by (simp add: sendCompatibleMessage_def Let_def chatCompletionReply_resolves)

lemma sendOpenAIMessage_call:
  "\<exists>call. fst (sendOpenAIMessage sdk apiKey history model) = [call] \<and>
          (resolves sdk call \<longleftrightarrow>
           (\<exists>r. snd (sendOpenAIMessage sdk apiKey history model) = Inr r))"
  by (simp add: sendOpenAIMessage_def Let_def chatCompletionReply_resolves)

lemma sendAnthropicMessage_call:
  "\<exists>call. fst (sendAnthropicMessage sdk apiKey history model) = [call] \<and>
          (resolves sdk call \<longleftrightarrow>
           (\<exists>r. snd (sendAnthropicMessage sdk apiKey history model) = Inr r))"
  by (simp add: sendAnthropicMessage_def Let_def split: sum.splits)

lemma sendGoogleMessage_call:
  "\<exists>call. fst (sendGoogleMessage sdk apiKey history model) = [call] \<and>
          (resolves sdk call \<longleftrightarrow>
           (\<exists>r. snd (sendGoogleMessage sdk apiKey history model) = Inr r))"
  by (simp add: sendGoogleMessage_def Let_def split: sum.splits)

lemma sendHuggingFaceMessage_call:
  "\<exists>call. fst (sendHuggingFaceMessage sdk apiKey history model) = [call] \<and>
          (resolves sdk call \<longleftrightarrow>
           (\<exists>r. snd (sendHuggingFaceMessage sdk apiKey history model) = Inr r))"
  by (simp add: sendHuggingFaceMessage_def Let_def split: sum.splits)

lemma sendMistralMessage_call:
  "\<exists>call. fst (sendMistralMessage sdk apiKey history model) = [call] \<and>
          (resolves sdk call \<longleftrightarrow>
           (\<exists>r. snd (sendMistralMessage sdk apiKey history model) = Inr r))"
  by (simp add: sendMistralMessage_def Let_def split: sum.splits)

lemma sendCohereMessage_call:
  "history \<noteq> [] \<Longrightarrow>
   \<exists>call. fst (sendCohereMessage sdk apiKey history model) = [call] \<and>
          (resolves sdk call \<longleftrightarrow>
           (\<exists>r. snd (sendCohereMessage sdk apiKey history model) = Inr r))"
  by (simp add: sendCohereMessage_def Let_def split: sum.splits)

lemma sendMessage_call:
  assumes "p = Cohere \<longrightarrow> history \<noteq> []"
  shows "\<exists>call. fst (sendMessage sdk (providerName p) apiKey history model) = [call] \<and>
          (resolves sdk call \<longleftrightarrow>
           (\<exists>r. snd (sendMessage sdk (providerName p) apiKey history model) = Inr r))"
proof (cases p)
  case Cohere
  then have "history \<noteq> []" using assms by simp
  then show ?thesis unfolding sendMessage_known Cohere AIProviderType.case
    by (rule sendCohereMessage_call)
qed (simp_all only: sendMessage_known AIProviderType.case compatible_defs
        sendCompatibleMessage_call sendOpenAIMessage_call sendAnthropicMessage_call
        sendGoogleMessage_call sendHuggingFaceMessage_call sendMistralMessage_call)

text \<open>
  Claim C1, as the code has it. For every supported provider and every history, a reply
  that \<open>sendMessage\<close> returns carries the input provider and the selected model: the
  explicit model when one is given and is not the empty string, that provider's entry of
  \<open>DEFAULT_MODELS\<close> when the model is omitted or empty. Unless the provider is Cohere and
  the history is empty, \<open>sendMessage\<close> makes exactly one SDK call, and it returns a reply
  exactly when that one call resolves (a chat completion with at least one choice); what
  the other clients would do plays no part.
\<close>

theorem sendMessage_provider_model:
  "(\<forall>r. snd (sendMessage sdk (providerName p) apiKey history model) = Inr r \<longrightarrow>
         ai_provider r = providerName p \<and>
         ai_model r = (case model of None \<Rightarrow> DEFAULT_MODELS p
                       | Some m \<Rightarrow> if m = [] then DEFAULT_MODELS p else m))
   \<and> ((p = Cohere \<longrightarrow> history \<noteq> []) \<longrightarrow>
        (\<exists>call. fst (sendMessage sdk (providerName p) apiKey history model) = [call] \<and>
                (resolves sdk call \<longleftrightarrow>
                 (\<exists>r. snd (sendMessage sdk (providerName p) apiKey history model) = Inr r))))"
  using sendMessage_fields[of sdk p apiKey history model]
        sendMessage_call[of p history sdk apiKey model]
  by (simp add: selectModel_def)

text \<open>
  OpenAI through an SDK whose other clients all reject, and Cohere with a one-turn history:
  the one call resolves, so a reply comes back, with the default model when none is given
  and the explicit one otherwise.
\<close>

theorem sendMessage_provider_model_witness:
  "fst (sendMessage openaiOnlySDK (providerName Openai) (js ''sk-test-12345'') [helloTurn] None)
     = [ChatCompletionsCreate
          \<lparr>cc_apiKey = js ''sk-test-12345'', cc_baseURL = None, cc_model = js ''gpt-4o'',
           cc_messages = [(js ''user'', Text (js ''Hello''))], cc_max_tokens = 4000\<rparr>]
   \<and> resolves openaiOnlySDK
        (ChatCompletionsCreate
          \<lparr>cc_apiKey = js ''sk-test-12345'', cc_baseURL = None, cc_model = js ''gpt-4o'',
           cc_messages = [(js ''user'', Text (js ''Hello''))], cc_max_tokens = 4000\<rparr>)
   \<and> (\<exists>r. snd (sendMessage openaiOnlySDK (providerName Openai) (js ''sk-test-12345'')
                  [helloTurn] None) = Inr r
          \<and> ai_provider r = js ''openai'' \<and> ai_model r = js ''gpt-4o'')
   \<and> [helloTurn] \<noteq> []
   \<and> resolves answeringSDK
        (CohereChat \<lparr>co_token = js ''sk-test-12345'', co_model = js ''command-r'',
                     co_message = js ''Hello'', co_chatHistory = None\<rparr>)
   \<and> (\<exists>r. snd (sendMessage answeringSDK (providerName Cohere) (js ''sk-test-12345'')
                  [helloTurn] (Some (js ''command-r''))) = Inr r
          \<and> ai_provider r = js ''cohere'' \<and> ai_model r = js ''command-r'')"
proof -
  let ?req = "ChatCompletionsCreate
          \<lparr>cc_apiKey = js ''sk-test-12345'', cc_baseURL = None, cc_model = js ''gpt-4o'',
           cc_messages = [(js ''user'', Text (js ''Hello''))], cc_max_tokens = 4000\<rparr>"
  let ?creq = "CohereChat \<lparr>co_token = js ''sk-test-12345'', co_model = js ''command-r'',
                     co_message = js ''Hello'', co_chatHistory = None\<rparr>"
  note t1 = sendMessage_provider_model[of openaiOnlySDK Openai "js ''sk-test-12345''"
              "[helloTurn]" None]
  note t2 = sendMessage_provider_model[of answeringSDK Cohere "js ''sk-test-12345''"
              "[helloTurn]" "Some (js ''command-r'')"]
  have c1: "fst (sendMessage openaiOnlySDK (providerName Openai) (js ''sk-test-12345'')
                   [helloTurn] None) = [?req]"
    unfolding sendMessage_known
    by (simp add: sendOpenAIMessage_def selectModel_def hasImages_def helloTurn_def Let_def)
  have v1: "resolves openaiOnlySDK ?req"
    by (simp add: openaiOnlySDK_def failingSDK_def)
  have "\<exists>r. snd (sendMessage openaiOnlySDK (providerName Openai) (js ''sk-test-12345'')
                  [helloTurn] None) = Inr r"
    using t1[THEN conjunct2] c1 v1 by auto
  then obtain r1 where r1: "snd (sendMessage openaiOnlySDK (providerName Openai)
                                   (js ''sk-test-12345'') [helloTurn] None) = Inr r1" ..
  then have f1: "ai_provider r1 = js ''openai'' \<and> ai_model r1 = js ''gpt-4o''"
    using t1[THEN conjunct1] by simp
  have h: "[helloTurn] \<noteq> []" by simp
  have c2: "fst (sendMessage answeringSDK (providerName Cohere) (js ''sk-test-12345'')
                   [helloTurn] (Some (js ''command-r''))) = [?creq]"
    unfolding sendMessage_known
    by (simp add: sendCohereMessage_def selectModel_def helloTurn_def Let_def js_simps)
  have v2: "resolves answeringSDK ?creq"
    by (simp add: answeringSDK_def)
  have "\<exists>r. snd (sendMessage answeringSDK (providerName Cohere) (js ''sk-test-12345'')
                  [helloTurn] (Some (js ''command-r''))) = Inr r"
    using t2[THEN conjunct2] h c2 v2 by auto
  then obtain r2 where r2: "snd (sendMessage answeringSDK (providerName Cohere)
                                   (js ''sk-test-12345'') [helloTurn]
                                   (Some (js ''command-r''))) = Inr r2" ..
  then have f2: "ai_provider r2 = js ''cohere'' \<and> ai_model r2 = js ''command-r''"
    using t2[THEN conjunct1] by (simp add: js_simps)
  show ?thesis using c1 v1 r1 f1 h v2 r2 f2 by blast
qed

text \<open>
  Claim C1 as stated fails for an explicit model that is the empty string: the reply carries
  the default model \<open>gpt-4o\<close>, not the model argument.
\<close>

theorem sendMessage_empty_model_counterexample:
  "snd (sendMessage answeringSDK (js ''openai'') (js ''sk-test-12345'') [helloTurn] (Some []))
     = Inr \<lparr>ai_content = js ''Hi'', ai_model = js ''gpt-4o'',
            ai_provider = js ''openai'', ai_usage = None\<rparr>
   \<and> js ''gpt-4o'' \<noteq> []"
proof -
  have c: "js ''openai'' = providerName Openai" by simp
  show ?thesis
    unfolding c sendMessage_known
    by (simp add: selectModel_def sendOpenAIMessage_def answeringSDK_def Let_def orEmpty_def
                  helloTurn_def chatCompletionReply_def usageOf_def js_simps)
qed

subsection \<open>Providers that ignore images\<close>

lemma plainMessages_withoutImages:
  "plainMessages (map withoutImages history) = plainMessages history"
  by (simp add: plainMessages_def withoutImages_def comp_def)

lemma sendCompatibleMessage_withoutImages:
  "sendCompatibleMessage url prov sdk apiKey (map withoutImages history) model
     = sendCompatibleMessage url prov sdk apiKey history model"
  by (simp add: sendCompatibleMessage_def plainMessages_withoutImages)

lemma sendHuggingFaceMessage_withoutImages:
  "sendHuggingFaceMessage sdk apiKey (map withoutImages history) model
     = sendHuggingFaceMessage sdk apiKey history model"
  by (simp add: sendHuggingFaceMessage_def withoutImages_def comp_def cong: if_cong)

lemma sendMistralMessage_withoutImages:
  "sendMistralMessage sdk apiKey (map withoutImages history) model
     = sendMistralMessage sdk apiKey history model"
  by (simp add: sendMistralMessage_def withoutImages_def comp_def)

lemma sendCohereMessage_withoutImages:
  "sendCohereMessage sdk apiKey (map withoutImages history) model
     = sendCohereMessage sdk apiKey history model"
proof (cases "history = []")
  case True
  then show ?thesis by (simp add: sendCohereMessage_def)
next
  case False
  then show ?thesis
    by (simp add: sendCohereMessage_def last_map map_butlast[symmetric] withoutImages_def comp_def)
qed

lemma sendMessage_withoutImages:
  assumes "p \<in> set noImageSupport"
  shows "sendMessage sdk (providerName p) apiKey (map withoutImages history) model
           = sendMessage sdk (providerName p) apiKey history model"
proof -
  have "p \<noteq> Openai" "p \<noteq> Anthropic" "p \<noteq> Google"
    using assms by (auto simp: noImageSupport_def)
  then show ?thesis
    unfolding sendMessage_known
    by (cases p)
       (simp_all add: compatible_defs sendCompatibleMessage_withoutImages
          sendHuggingFaceMessage_withoutImages sendMistralMessage_withoutImages
          sendCohereMessage_withoutImages)
qed

text \<open>
  Claim C9. For Hugging Face, Mistral, Cohere and the six providers behind the
  OpenAI-compatible client, two histories that differ in their \<open>images\<close> fields only give
  the same outbound calls and the same outcome; in particular a history with images is
  treated as the same history without them, so no failure comes from the images and no
  image reaches the request.
\<close>

theorem sendMessage_ignores_images:
  assumes "p \<in> set noImageSupport"
    and "map withoutImages history1 = map withoutImages history2"
  shows "sendMessage sdk (providerName p) apiKey history1 model
           = sendMessage sdk (providerName p) apiKey history2 model
       \<and> sendMessage sdk (providerName p) apiKey history1 model
           = sendMessage sdk (providerName p) apiKey (map withoutImages history1) model"
proof -
  have "sendMessage sdk (providerName p) apiKey history1 model
        = sendMessage sdk (providerName p) apiKey (map withoutImages history1) model"
    by (rule sendMessage_withoutImages[OF assms(1), symmetric])
  moreover have "sendMessage sdk (providerName p) apiKey (map withoutImages history2) model
        = sendMessage sdk (providerName p) apiKey history2 model"
    by (rule sendMessage_withoutImages[OF assms(1)])
  ultimately show ?thesis using assms(2) by simp
qed

text \<open>
  A turn with an image and the same turn without it, sent to Cerebras: one and the same
  request, with the text only.
\<close>

theorem sendMessage_ignores_images_witness:
  "Cerebras \<in> set noImageSupport
   \<and> map withoutImages [pictureTurn] = map withoutImages [helloTurn]
   \<and> [pictureTurn] \<noteq> [helloTurn]
   \<and> sendMessage answeringSDK (providerName Cerebras) (js ''sk-test-12345'') [pictureTurn] None
       = sendMessage answeringSDK (providerName Cerebras) (js ''sk-test-12345'') [helloTurn] None
   \<and> fst (sendMessage answeringSDK (providerName Cerebras) (js ''sk-test-12345'') [pictureTurn] None)
       = [ChatCompletionsCreate
            \<lparr>cc_apiKey = js ''sk-test-12345'', cc_baseURL = Some (js ''https://api.cerebras.ai/v1''),
             cc_model = js ''llama3.1-8b'',
             cc_messages = [(js ''user'', Text (js ''Hello''))], cc_max_tokens = 1000\<rparr>]"
proof -
  have m: "Cerebras \<in> set noImageSupport" by (simp add: noImageSupport_def)
  have e: "map withoutImages [pictureTurn] = map withoutImages [helloTurn]"
    by (simp add: withoutImages_def pictureTurn_def helloTurn_def)
  have d: "[pictureTurn] \<noteq> [helloTurn]"
    by (simp add: pictureTurn_def helloTurn_def)
  note t = sendMessage_ignores_images[OF m e, of answeringSDK "js ''sk-test-12345''" None]
  have r: "fst (sendMessage answeringSDK (providerName Cerebras) (js ''sk-test-12345'') [helloTurn] None)
       = [ChatCompletionsCreate
            \<lparr>cc_apiKey = js ''sk-test-12345'', cc_baseURL = Some (js ''https://api.cerebras.ai/v1''),
             cc_model = js ''llama3.1-8b'',
             cc_messages = [(js ''user'', Text (js ''Hello''))], cc_max_tokens = 1000\<rparr>]"
    unfolding sendMessage_known
    by (simp add: sendCerebrasMessage_def sendCompatibleMessage_def selectModel_def
                  plainMessages_def helloTurn_def Let_def)
  show ?thesis using m e d t[THEN conjunct1] r by simp
qed

subsection \<open>The send-message handler\<close>

text \<open>
  Claim C3, as the code has it. When the conversation exists and belongs to the user, the
  body passes \<open>ChatMessageSchema\<close> and there is no active key for the conversation's
  provider, the handler answers 400 with the provider-not-configured message and leaves the
  store as it was: the key is looked up before the user message is saved, so neither the
  user message nor a reply is stored.
\<close>

theorem postMessage_without_key:
  assumes "getConversation cid s = Some conversation"
    and "conv_userId conversation = Some mockUserId"
    and "ChatMessageSchema_parse body = Inr messageData"
    and "getApiKey mockUserId (conv_provider conversation) s = None"
  shows "postMessage sdk env cid body s
           = (Fail 400 (js ''API key not configured for '' @ conv_provider conversation), s)"
  using assms by (simp add: postMessage_def)

lemma parse_helloBody:
  "ChatMessageSchema_parse helloBody = Inr \<lparr>cm_content = js ''Hello'', cm_images = None\<rparr>"
  by (simp add: ChatMessageSchema_parse_def helloBody_def validAttachments_def js_simps)

lemma getConversation_storeWithoutKey:
  "getConversation (js ''c1'') storeWithoutKey = Some (testConversation (js ''openai''))"
  by (simp add: getConversation_def Map_get_def storeWithoutKey_def)

text \<open>
  One conversation of the user, no key, the body \<open>{ content: "Hello" }\<close>.
\<close>

theorem postMessage_without_key_witness:
  "getConversation (js ''c1'') storeWithoutKey = Some (testConversation (js ''openai''))
   \<and> conv_userId (testConversation (js ''openai'')) = Some mockUserId
   \<and> ChatMessageSchema_parse helloBody = Inr \<lparr>cm_content = js ''Hello'', cm_images = None\<rparr>
   \<and> getApiKey mockUserId (js ''openai'') storeWithoutKey = None
   \<and> postMessage answeringSDK testEnv (js ''c1'') helloBody storeWithoutKey
       = (Fail 400 (js ''API key not configured for openai''), storeWithoutKey)"
proof -
  have o: "conv_userId (testConversation (js ''openai'')) = Some mockUserId"
    by (simp add: testConversation_def)
  have k: "getApiKey mockUserId (conv_provider (testConversation (js ''openai''))) storeWithoutKey = None"
    by (simp add: getApiKey_def storeWithoutKey_def Map_values_def)
  have p: "conv_provider (testConversation (js ''openai'')) = js ''openai''"
    by (simp add: testConversation_def)
  have a: "js ''API key not configured for '' @ js ''openai'' = js ''API key not configured for openai''"
    by (simp add: js_def)
  note t = postMessage_without_key[OF getConversation_storeWithoutKey o parse_helloBody k,
             of answeringSDK testEnv]
  show ?thesis
    using getConversation_storeWithoutKey o parse_helloBody k[unfolded p] t[unfolded p a] by blast
qed

text \<open>
  Claim C3 as stated expects the user message in the store after the failure. With one
  conversation, no key and the body \<open>{ content: "Hello" }\<close> the handler answers 400 and the
  conversation has no message at all.
\<close>

theorem postMessage_without_key_counterexample:
  "getApiKey mockUserId (js ''openai'') storeWithoutKey = None
   \<and> fst (postMessage answeringSDK testEnv (js ''c1'') helloBody storeWithoutKey)
       = Fail 400 (js ''API key not configured for openai'')
   \<and> messages (snd (postMessage answeringSDK testEnv (js ''c1'') helloBody storeWithoutKey)) = []
   \<and> getMessagesByConversationId (js ''c1'')
         (snd (postMessage answeringSDK testEnv (js ''c1'') helloBody storeWithoutKey)) = []"
proof -
  have k: "getApiKey mockUserId (js ''openai'') storeWithoutKey = None"
    by (simp add: getApiKey_def storeWithoutKey_def Map_values_def)
  have a: "js ''API key not configured for '' @ js ''openai'' = js ''API key not configured for openai''"
    by (simp add: js_def)
  have r: "postMessage answeringSDK testEnv (js ''c1'') helloBody storeWithoutKey
       = (Fail 400 (js ''API key not configured for openai''), storeWithoutKey)"
    using k a
    by (simp add: postMessage_def getConversation_storeWithoutKey parse_helloBody
                  testConversation_def)
  have m: "messages storeWithoutKey = []" by (simp add: storeWithoutKey_def)
  show ?thesis using k m by (simp add: r getMessagesByConversationId_def Map_values_def)
qed

text \<open>
  Claim C4. When \<open>sendMessage\<close> fails after the user message has been saved, the handler
  answers 500 and leaves the store that \<open>createMessage\<close> for the user turn produced: the
  messages are the former ones and the user message (appended when its id is fresh), with no
  assistant message; the conversations, and with them \<open>updatedAt\<close> of this conversation, are
  untouched, and so are the keys and the users.
\<close>

theorem postMessage_provider_failure:
  assumes "getConversation cid s = Some conversation"
    and "conv_userId conversation = Some mockUserId"
    and "ChatMessageSchema_parse body = Inr messageData"
    and "getApiKey mockUserId (conv_provider conversation) s = Some apiKey"
    and "snd (sendMessage sdk (conv_provider conversation) (keyValue apiKey)
               (chatHistoryOf (getMessagesByConversationId cid
                  (snd (createMessage (userMessageId env) (userMessageDate env)
                          (userTurn cid messageData) s))))
               (Some (conv_model conversation))) = Inl e"
  shows "postMessage sdk env cid body s
           = (Fail 500 (js ''Failed to send message''),
              snd (createMessage (userMessageId env) (userMessageDate env)
                     (userTurn cid messageData) s))
       \<and> messages (snd (postMessage sdk env cid body s))
           = Map_set (userMessageId env)
               \<lparr>msg_id = userMessageId env, conversationId = cid, role = js ''user'',
                content = cm_content messageData,
                metadata = map_option MetaImages (cm_images messageData),
                createdAt = userMessageDate env\<rparr>
               (messages s)
       \<and> (\<not> Map_has (userMessageId env) (messages s) \<longrightarrow>
            Map_values (messages (snd (postMessage sdk env cid body s)))
              = Map_values (messages s) @
                [\<lparr>msg_id = userMessageId env, conversationId = cid, role = js ''user'',
                  content = cm_content messageData,
                  metadata = map_option MetaImages (cm_images messageData),
                  createdAt = userMessageDate env\<rparr>])
       \<and> conversations (snd (postMessage sdk env cid body s)) = conversations s
       \<and> getConversation cid (snd (postMessage sdk env cid body s)) = Some conversation
       \<and> apiKeys (snd (postMessage sdk env cid body s)) = apiKeys s
       \<and> users (snd (postMessage sdk env cid body s)) = users s"
proof -
  let ?s1 = "snd (createMessage (userMessageId env) (userMessageDate env)
                     (userTurn cid messageData) s)"
  have r: "postMessage sdk env cid body s = (Fail 500 (js ''Failed to send message''), ?s1)"
    using assms by (simp add: postMessage_def Let_def split_beta)
  have meta: "(case cm_images messageData of None \<Rightarrow> None | Some imgs \<Rightarrow> Some (MetaImages imgs))
              = map_option MetaImages (cm_images messageData)"
    by (cases "cm_images messageData") simp_all
  have s1: "?s1 = s\<lparr>messages := Map_set (userMessageId env)
               \<lparr>msg_id = userMessageId env, conversationId = cid, role = js ''user'',
                content = cm_content messageData,
                metadata = map_option MetaImages (cm_images messageData),
                createdAt = userMessageDate env\<rparr>
               (messages s)\<rparr>"
    by (simp add: createMessage_def userTurn_def Let_def meta)
  have fresh: "\<not> Map_has (userMessageId env) (messages s) \<longrightarrow>
            Map_values (messages ?s1)
              = Map_values (messages s) @
                [\<lparr>msg_id = userMessageId env, conversationId = cid, role = js ''user'',
                  content = cm_content messageData,
                  metadata = map_option MetaImages (cm_images messageData),
                  createdAt = userMessageDate env\<rparr>]"
    by (simp add: s1 Map_has_def Map_set_append_fresh Map_values_def)
  have c: "getConversation cid ?s1 = Some conversation"
    using assms(1) by (simp add: s1 getConversation_def)
  show ?thesis
    unfolding r snd_conv using fresh c by (simp add: s1)
qed

lemma getConversation_storeWithKey:
  "getConversation (js ''c1'') storeWithKey = Some (testConversation (js ''openai''))"
  by (simp add: getConversation_def Map_get_def storeWithKey_def storeWithoutKey_def)

lemma getApiKey_storeWithKey:
  "getApiKey mockUserId (conv_provider (testConversation (js ''openai''))) storeWithKey
     = Some (testKey (js ''k1'') (js ''openai'') (js ''sk-test-12345'') True)"
  by (simp add: getApiKey_def storeWithKey_def storeWithoutKey_def Map_values_def testKey_def
                testConversation_def)

lemma sendMessage_failingSDK_openai:
  "snd (sendMessage failingSDK (js ''openai'') apiKey history model)
     = Inl (UpstreamError (js ''401''))"
proof -
  have c: "js ''openai'' = providerName Openai" by simp
  show ?thesis
    unfolding c sendMessage_known
    by (simp add: sendOpenAIMessage_def failingSDK_def Let_def chatCompletionReply_def)
qed

text \<open>
  The same conversation with an active OpenAI key and an SDK whose calls all fail: the store
  holds the user message \<open>m1\<close> alone and the conversation as it was.
\<close>

theorem postMessage_provider_failure_witness:
  "getConversation (js ''c1'') storeWithKey = Some (testConversation (js ''openai''))
   \<and> conv_userId (testConversation (js ''openai'')) = Some mockUserId
   \<and> ChatMessageSchema_parse helloBody = Inr \<lparr>cm_content = js ''Hello'', cm_images = None\<rparr>
   \<and> getApiKey mockUserId (js ''openai'') storeWithKey
       = Some (testKey (js ''k1'') (js ''openai'') (js ''sk-test-12345'') True)
   \<and> fst (postMessage failingSDK testEnv (js ''c1'') helloBody storeWithKey)
       = Fail 500 (js ''Failed to send message'')
   \<and> messages (snd (postMessage failingSDK testEnv (js ''c1'') helloBody storeWithKey))
       = [(js ''m1'', \<lparr>msg_id = js ''m1'', conversationId = js ''c1'', role = js ''user'',
                        content = js ''Hello'', metadata = None, createdAt = 2000\<rparr>)]
   \<and> conversations (snd (postMessage failingSDK testEnv (js ''c1'') helloBody storeWithKey))
       = [(js ''c1'', testConversation (js ''openai''))]"
proof -
  have o: "conv_userId (testConversation (js ''openai'')) = Some mockUserId"
    by (simp add: testConversation_def)
  have p: "conv_provider (testConversation (js ''openai'')) = js ''openai''"
    by (simp add: testConversation_def)
  have f: "snd (sendMessage failingSDK (conv_provider (testConversation (js ''openai'')))
               (keyValue (testKey (js ''k1'') (js ''openai'') (js ''sk-test-12345'') True))
               (chatHistoryOf (getMessagesByConversationId (js ''c1'')
                  (snd (createMessage (userMessageId testEnv) (userMessageDate testEnv)
                          (userTurn (js ''c1'') \<lparr>cm_content = js ''Hello'', cm_images = None\<rparr>)
                          storeWithKey))))
               (Some (conv_model (testConversation (js ''openai''))))) = Inl (UpstreamError (js ''401''))"
    unfolding p by (rule sendMessage_failingSDK_openai)
  note t = postMessage_provider_failure[OF getConversation_storeWithKey o parse_helloBody
             getApiKey_storeWithKey f]
  have r: "fst (postMessage failingSDK testEnv (js ''c1'') helloBody storeWithKey)
       = Fail 500 (js ''Failed to send message'')"
    using t[THEN conjunct1] by simp
  have m: "messages (snd (postMessage failingSDK testEnv (js ''c1'') helloBody storeWithKey))
       = [(js ''m1'', \<lparr>msg_id = js ''m1'', conversationId = js ''c1'', role = js ''user'',
                        content = js ''Hello'', metadata = None, createdAt = 2000\<rparr>)]"
    using t[THEN conjunct2, THEN conjunct1]
    by (simp add: testEnv_def storeWithKey_def storeWithoutKey_def)
  have c: "conversations (snd (postMessage failingSDK testEnv (js ''c1'') helloBody storeWithKey))
       = [(js ''c1'', testConversation (js ''openai''))]"
    using t[THEN conjunct2, THEN conjunct2, THEN conjunct2, THEN conjunct1]
    by (simp add: storeWithKey_def storeWithoutKey_def)
  show ?thesis
    using getConversation_storeWithKey o parse_helloBody getApiKey_storeWithKey[unfolded p] r m c
    by blast
qed

subsection \<open>A provider outside the enumeration\<close>

lemma AIProvider_parse_foo: "AIProvider_parse (js ''foo'') = None"
  by (simp add: AIProvider_parse_def allProviders_def js_simps)

text \<open>
  Claim C5 at a provider outside the enumeration. \<open>foo\<close> is not accepted by
  \<open>AIProvider.parse\<close>, yet creating a conversation with it succeeds and stores the
  conversation, setting a key for it succeeds and stores the key, and sending a message in a
  conversation of provider \<open>foo\<close> that has a key stores the user message before
  \<open>sendMessage\<close> throws \<open>Unsupported provider\<close>, which is answered with 500.
\<close>

theorem unknown_provider_reaches_store:
  "AIProvider_parse (js ''foo'') = None
   \<and> postConversation (js ''c1'') 1000
        (JObj [(js ''title'', JStr (js ''Test'')), (js ''provider'', JStr (js ''foo'')),
               (js ''model'', JStr (js ''gpt-4o''))]) emptyStorage
       = (Ok (testConversation (js ''foo'')),
          emptyStorage\<lparr>conversations := [(js ''c1'', testConversation (js ''foo''))]\<rparr>)
   \<and> postApiKey (js ''k1'') 500
        (JObj [(js ''provider'', JStr (js ''foo'')), (js ''keyValue'', JStr (js ''secret''))])
        emptyStorage
       = (Ok (testKey (js ''k1'') (js ''foo'') (maskKey (js ''secret'')) True),
          emptyStorage\<lparr>apiKeys := [(js ''k1'', testKey (js ''k1'') (js ''foo'') (js ''secret'') True)]\<rparr>)
   \<and> postMessage answeringSDK testEnv (js ''c1'') helloBody storeWithFoo
       = (Fail 500 (js ''Failed to send message''),
          storeWithFoo\<lparr>messages := [(js ''m1'', testMessage (js ''m1'') (js ''c1'') 2000)]\<rparr>)"
proof -
  have a: "postConversation (js ''c1'') 1000
        (JObj [(js ''title'', JStr (js ''Test'')), (js ''provider'', JStr (js ''foo'')),
               (js ''model'', JStr (js ''gpt-4o''))]) emptyStorage
       = (Ok (testConversation (js ''foo'')),
          emptyStorage\<lparr>conversations := [(js ''c1'', testConversation (js ''foo''))]\<rparr>)"
    by (simp add: postConversation_def insertConversationSchema_parse_def createConversation_def
                  emptyStorage_def testConversation_def mockUserId_def Let_def js_simps)
  have b: "postApiKey (js ''k1'') 500
        (JObj [(js ''provider'', JStr (js ''foo'')), (js ''keyValue'', JStr (js ''secret''))])
        emptyStorage
       = (Ok (testKey (js ''k1'') (js ''foo'') (maskKey (js ''secret'')) True),
          emptyStorage\<lparr>apiKeys := [(js ''k1'', testKey (js ''k1'') (js ''foo'') (js ''secret'') True)]\<rparr>)"
    by (simp add: postApiKey_def insertApiKeySchema_parse_def setApiKey_def emptyStorage_def
                  testKey_def Map_values_def Let_def js_simps)
  have g: "getConversation (js ''c1'') storeWithFoo = Some (testConversation (js ''foo''))"
    by (simp add: getConversation_def Map_get_def storeWithFoo_def)
  have k: "getApiKey mockUserId (js ''foo'') storeWithFoo
             = Some (testKey (js ''k1'') (js ''foo'') (js ''secret'') True)"
    by (simp add: getApiKey_def storeWithFoo_def Map_values_def testKey_def)
  have u: "snd (sendMessage answeringSDK (js ''foo'') apiKey history model)
             = Inl (UnsupportedProvider (js ''foo''))" for apiKey history model
    by (simp add: sendMessage_def AIProvider_parse_foo)
  have c: "postMessage answeringSDK testEnv (js ''c1'') helloBody storeWithFoo
       = (Fail 500 (js ''Failed to send message''),
          storeWithFoo\<lparr>messages := [(js ''m1'', testMessage (js ''m1'') (js ''c1'') 2000)]\<rparr>)"
    using g k u
    by (simp add: postMessage_def parse_helloBody testConversation_def Let_def split_beta
                  createMessage_def userTurn_def testEnv_def testMessage_def storeWithFoo_def)
  show ?thesis using AIProvider_parse_foo a b c by blast
qed

subsection \<open>Masked key values\<close>

text \<open>
  Claim C6. The response of \<open>GET /api/api-keys\<close> lists the keys of the user, each with its
  \<open>keyValue\<close> replaced by the first 8 code units of the secret followed by 40 bullets, and
  the handler leaves the store unchanged. The response depends on the secrets through their
  first 8 code units only: two stores whose keys agree once every secret is cut after 8 code
  units give the same response.
\<close>

theorem getApiKeys_masked:
  "fst (getApiKeys s)
     = Ok (map (\<lambda>key. key\<lparr>keyValue := take 8 (keyValue key) @ replicate 40 0x2022\<rparr>)
             (filter (\<lambda>key. userId key = mockUserId) (Map_values (apiKeys s))))
   \<and> snd (getApiKeys s) = s
   \<and> (map (map_prod id redact) (apiKeys s1) = map (map_prod id redact) (apiKeys s2) \<longrightarrow>
        fst (getApiKeys s1) = fst (getApiKeys s2))"
proof -
  have shape: "\<And>s. fst (getApiKeys s)
     = Ok (map (\<lambda>key. key\<lparr>keyValue := take 8 (keyValue key) @ replicate 40 0x2022\<rparr>)
             (filter (\<lambda>key. userId key = mockUserId) (Map_values (apiKeys s))))"
    by (simp add: getApiKeys_def getApiKeysByUserId_def maskKey_def Let_def)
  have via: "\<And>s. map (\<lambda>key. key\<lparr>keyValue := take 8 (keyValue key) @ replicate 40 0x2022\<rparr>)
                    (filter (\<lambda>key. userId key = mockUserId) (Map_values (apiKeys s)))
             = map (\<lambda>key. key\<lparr>keyValue := keyValue key @ replicate 40 0x2022\<rparr>)
                 (filter (\<lambda>key. userId key = mockUserId)
                    (map snd (map (map_prod id redact) (apiKeys s))))"
    by (simp add: Map_values_def redact_def filter_map comp_def)
  have "map (map_prod id redact) (apiKeys s1) = map (map_prod id redact) (apiKeys s2) \<longrightarrow>
        fst (getApiKeys s1) = fst (getApiKeys s2)"
    unfolding shape via by simp
  then show ?thesis using shape[of s] by (simp add: getApiKeys_def Let_def)
qed

text \<open>
  Two secrets with the same first 8 code units, \<open>sk-test-12345\<close> and \<open>sk-test-99999\<close>: the
  same response, showing \<open>sk-test-\<close> and the bullets.
\<close>

theorem getApiKeys_masked_witness:
  "map (map_prod id redact) (apiKeys storeWithKey)
     = map (map_prod id redact) (apiKeys storeWithOtherKey)
   \<and> apiKeys storeWithKey \<noteq> apiKeys storeWithOtherKey
   \<and> fst (getApiKeys storeWithKey) = fst (getApiKeys storeWithOtherKey)
   \<and> fst (getApiKeys storeWithKey)
       = Ok [testKey (js ''k1'') (js ''openai'') (js ''sk-test-'' @ replicate 40 0x2022) True]"
proof -
  have e: "map (map_prod id redact) (apiKeys storeWithKey)
             = map (map_prod id redact) (apiKeys storeWithOtherKey)"
    by (simp add: storeWithKey_def storeWithOtherKey_def redact_def testKey_def js_simps)
  have d: "apiKeys storeWithKey \<noteq> apiKeys storeWithOtherKey"
    by (simp add: storeWithKey_def storeWithOtherKey_def testKey_def js_simps)
  note t = getApiKeys_masked[of storeWithKey storeWithKey storeWithOtherKey]
  have same: "fst (getApiKeys storeWithKey) = fst (getApiKeys storeWithOtherKey)"
    using t e by blast
  have shape: "fst (getApiKeys storeWithKey)
       = Ok [testKey (js ''k1'') (js ''openai'') (js ''sk-test-'' @ replicate 40 0x2022) True]"
    using t[THEN conjunct1]
    by (simp add: storeWithKey_def storeWithoutKey_def Map_values_def testKey_def js_simps)
  show ?thesis using e d same shape by blast
qed

subsection \<open>Every method keeps the store well-formed\<close>

lemma keys_Map_set:
  "map fst (Map_set k v m) = (if k \<in> set (map fst m) then map fst m else map fst m @ [k])"
  by (induction m) (force split: if_splits)+

lemma set_Map_set: "set (Map_set k v m) \<subseteq> insert (k, v) (set m)"
  by (induction m) (auto split: if_splits)

lemma keyed_by_Map_set:
  assumes "keyed_by ident m" "ident v = k"
  shows "keyed_by ident (Map_set k v m)"
proof -
  have "distinct (map fst (Map_set k v m))"
    using assms(1) unfolding keys_Map_set by (simp add: keyed_by_def Map_ok_def)
  moreover have "\<forall>e \<in> set (Map_set k v m). ident (snd e) = fst e"
    using assms set_Map_set[of k v m] by (auto simp: keyed_by_def list_all_iff)
  ultimately show ?thesis by (simp add: keyed_by_def Map_ok_def list_all_iff)
qed

lemma keyed_by_filter: "keyed_by ident m \<Longrightarrow> keyed_by ident (filter P m)"
  unfolding keyed_by_def Map_ok_def by (simp add: distinct_map_filter list_all_iff)

lemma store_ok_emptyStorage: "store_ok emptyStorage"
  by (simp add: store_ok_def emptyStorage_def keyed_by_def Map_ok_def)

lemma store_ok_createUser: "store_ok s \<Longrightarrow> store_ok (snd (createUser uuid u s))"
  by (simp add: store_ok_def createUser_def Let_def keyed_by_Map_set)

lemma store_ok_createConversation:
  "store_ok s \<Longrightarrow> store_ok (snd (createConversation uuid now c s))"
  by (simp add: store_ok_def createConversation_def Let_def keyed_by_Map_set)

lemma store_ok_createMessage: "store_ok s \<Longrightarrow> store_ok (snd (createMessage uuid now m s))"
  by (simp add: store_ok_def createMessage_def Let_def keyed_by_Map_set)

lemma keyed_by_Map_get:
  "keyed_by ident m \<Longrightarrow> Map_get k m = Some v \<Longrightarrow> ident v = k"
  using map_of_SomeD[of m k v] by (auto simp: keyed_by_def Map_get_def list_all_iff)

lemma store_ok_updateConversation:
  assumes "store_ok s"
  shows "store_ok (snd (updateConversation cid updates now s))"
proof (cases "Map_get cid (conversations s)")
  case None
  then show ?thesis using assms by (simp add: updateConversation_def)
next
  case (Some existing)
  have k: "keyed_by conv_id (conversations s)" using assms by (simp add: store_ok_def)
  have "conv_id existing = cid" by (rule keyed_by_Map_get[OF k Some])
  then show ?thesis using assms Some k
    by (simp add: store_ok_def updateConversation_def Let_def applyUpdates_def keyed_by_Map_set)
qed

lemma store_ok_deleteConversation:
  assumes "store_ok s"
  shows "store_ok (snd (deleteConversation cid s))"
proof -
  have m: "keyed_by msg_id (messages s)" using assms by (simp add: store_ok_def)
  show ?thesis
    using assms deleteMessages_messages[OF m, of cid] deleteMessages_frame[of cid s]
    by (simp add: store_ok_def deleteConversation_def Let_def split_beta Map_delete_def
                  keyed_by_filter)
qed

lemma store_ok_deleteApiKey: "store_ok s \<Longrightarrow> store_ok (snd (deleteApiKey uid prov s))"
  by (simp add: store_ok_def deleteApiKey_def Map_delete_def keyed_by_filter
           split: option.splits)

end
